theory Spec2Isabelle
  imports Main "HOL-Library.Word" "HOL-Library.Char_ord" "HOL-Library.List_Lexorder"
begin

section \<open>Strings, numbers and bytes of the runtime\<close>

text \<open>
  A string of the program is a \<^typ>\<open>string\<close>; a character stands for the code point of
  the same number (U+0000 to U+00FF). A byte is an \<^typ>\<open>8 word\<close>.
\<close>

type_synonym byte = "8 word"

text \<open>The digits of \<open>Number.prototype.toString(radix)\<close>.\<close>

definition digit_char :: "nat \<Rightarrow> char" where
  "digit_char d = ''0123456789abcdefghijklmnopqrstuvwxyz'' ! d"

text \<open>
  \<open>n.toString(radix)\<close> of a non-negative integer \<open>n\<close>, for a radix from 2 to 36 (any other
  radix is a RangeError in the runtime; the program uses 16, and 10 in template literals).
\<close>

function toString_radix :: "nat \<Rightarrow> nat \<Rightarrow> string" where
  "toString_radix r n =
     (if r < 2 \<or> n < r then [digit_char n]
      else toString_radix r (n div r) @ [digit_char (n mod r)])"
  by pat_completeness auto
termination
  by (relation "measure (\<lambda>(r, n). n)") auto

declare toString_radix.simps [simp del]

text \<open>
  The string of an integer-valued number inside a template literal (\<open>`${timestamp}`\<close>):
  decimal digits, with a minus sign below zero. This is what the runtime prints for every
  integer of magnitude below \<open>10^21\<close>, which covers all Unix timestamps.
\<close>

definition Number_toString :: "int \<Rightarrow> string" where
  "Number_toString n =
     (if n < 0 then ''-'' @ toString_radix 10 (nat (- n)) else toString_radix 10 (nat n))"

text \<open>\<open>s.padStart(n, c)\<close> with a one-character filler.\<close>

definition padStart :: "nat \<Rightarrow> char \<Rightarrow> string \<Rightarrow> string" where
  "padStart n c s = replicate (n - length s) c @ s"

text \<open>\<open>Array.prototype.join\<close>.\<close>

fun join :: "string \<Rightarrow> string list \<Rightarrow> string" where
  "join sep [] = []"
| "join sep [x] = x"
| "join sep (x # y # ys) = x @ sep @ join sep (y # ys)"

text \<open>
  \<open>new TextEncoder().encode(str)\<close>: UTF-8. A code point below U+0080 is one byte, one from
  U+0080 to U+00FF is two bytes.
\<close>

definition encode_char :: "char \<Rightarrow> byte list" where
  "encode_char c =
     (let n = (of_char c :: nat) in
      if n < 128 then [of_nat n] else [of_nat (192 + n div 64), of_nat (128 + n mod 64)])"

definition TextEncoder_encode :: "string \<Rightarrow> byte list" where
  "TextEncoder_encode str = concat (map encode_char str)"

text \<open>
  \<open>bytes.map(b => b.toString(16).padStart(2, '0')).join('')\<close>, the encoding every signature
  and digest of the program goes through.
\<close>

definition hex_of_bytes :: "byte list \<Rightarrow> string" where
  "hex_of_bytes bs = join [] (map (\<lambda>b. padStart 2 (CHR ''0'') (toString_radix 16 (unat b))) bs)"

text \<open>Truthiness of a string and of an optional (possibly \<open>undefined\<close>) string.\<close>

definition truthy_string :: "string \<Rightarrow> bool" where
  "truthy_string s = (s \<noteq> [])"

definition truthy_opt :: "string option \<Rightarrow> bool" where
  "truthy_opt x = (case x of None \<Rightarrow> False | Some s \<Rightarrow> truthy_string s)"

text \<open>\<open>a || b\<close> on strings, and on an optional string with a string default.\<close>

definition or_else :: "string \<Rightarrow> string \<Rightarrow> string" where
  "or_else a b = (if truthy_string a then a else b)"

definition opt_or_else :: "string option \<Rightarrow> string \<Rightarrow> string" where
  "opt_or_else x b = (case x of None \<Rightarrow> b | Some a \<Rightarrow> or_else a b)"



section \<open>Values of the runtime and \<open>JSON.stringify\<close>\<close>

text \<open>
  The values an \<open>any\<close>-typed argument can hold, as far as the program looks at them:
  \<open>undefined\<close>, \<open>null\<close>, booleans, integer-valued numbers, \<open>NaN\<close>, strings, arrays and
  plain objects. An object is the list of its own properties in the runtime's order of
  enumeration.
\<close>

datatype jsvalue =
    JUndefined
  | JNull
  | JBoolean bool
  | JNumber int
  | JNaN
  | JString string
  | JArray "jsvalue list"
  | JObject "(string \<times> jsvalue) list"

text \<open>\<open>!v\<close> is \<open>\<not> truthy v\<close>.\<close>

fun truthy :: "jsvalue \<Rightarrow> bool" where
  "truthy JUndefined = False"
| "truthy JNull = False"
| "truthy (JBoolean b) = b"
| "truthy (JNumber n) = (n \<noteq> 0)"
| "truthy JNaN = False"
| "truthy (JString s) = truthy_string s"
| "truthy (JArray xs) = True"
| "truthy (JObject ps) = True"

text \<open>
  \<open>v.name\<close> for a property name that no string, array or number has of its own (the program
  reads \<open>user_id\<close>): the property of an object, \<open>undefined\<close> elsewhere.
\<close>

fun get_property :: "jsvalue \<Rightarrow> string \<Rightarrow> jsvalue" where
  "get_property (JObject ps) name = (case map_of ps name of None \<Rightarrow> JUndefined | Some v \<Rightarrow> v)"
| "get_property _ name = JUndefined"

text \<open>\<open>QuoteJSONString\<close>: the escapes of \<open>JSON.stringify\<close>.\<close>

definition quote_char :: "char \<Rightarrow> string" where
  "quote_char c =
     (if c = CHR 0x08 then [CHR 0x5C, CHR ''b'']
      else if c = CHR 0x09 then [CHR 0x5C, CHR ''t'']
      else if c = CHR 0x0A then [CHR 0x5C, CHR ''n'']
      else if c = CHR 0x0C then [CHR 0x5C, CHR ''f'']
      else if c = CHR 0x0D then [CHR 0x5C, CHR ''r'']
      else if c = CHR 0x22 then [CHR 0x5C, CHR 0x22]
      else if c = CHR 0x5C then [CHR 0x5C, CHR 0x5C]
      else if (of_char c :: nat) < 32
        then [CHR 0x5C, CHR ''u''] @ padStart 4 (CHR ''0'') (toString_radix 16 (of_char c))
      else [c])"

definition QuoteJSONString :: "string \<Rightarrow> string" where
  "QuoteJSONString s = [CHR 0x22] @ concat (map quote_char s) @ [CHR 0x22]"

text \<open>
  \<open>SerializeJSONProperty\<close>: \<open>None\<close> is the runtime's \<open>undefined\<close> (nothing is written).
  An array writes \<open>null\<close> for such an element, an object leaves such a property out.
\<close>

fun SerializeJSONProperty :: "jsvalue \<Rightarrow> string option"
  and SerializeJSONArray :: "jsvalue list \<Rightarrow> string list"
  and SerializeJSONObject :: "(string \<times> jsvalue) list \<Rightarrow> string list" where
  "SerializeJSONProperty JUndefined = None"
| "SerializeJSONProperty JNull = Some ''null''"
| "SerializeJSONProperty (JBoolean b) = Some (if b then ''true'' else ''false'')"
| "SerializeJSONProperty (JNumber n) = Some (Number_toString n)"
| "SerializeJSONProperty JNaN = Some ''null''"
| "SerializeJSONProperty (JString s) = Some (QuoteJSONString s)"
| "SerializeJSONProperty (JArray xs) = Some (''['' @ join '','' (SerializeJSONArray xs) @ '']'')"
| "SerializeJSONProperty (JObject ps) = Some (''{'' @ join '','' (SerializeJSONObject ps) @ ''}'')"
| "SerializeJSONArray [] = []"
| "SerializeJSONArray (x # xs) =
     (case SerializeJSONProperty x of None \<Rightarrow> ''null'' | Some t \<Rightarrow> t) # SerializeJSONArray xs"
| "SerializeJSONObject [] = []"
| "SerializeJSONObject (p # ps) =
     (case SerializeJSONProperty (snd p) of
        None \<Rightarrow> SerializeJSONObject ps
      | Some t \<Rightarrow> (QuoteJSONString (fst p) @ '':'' @ t) # SerializeJSONObject ps)"

text \<open>\<open>JSON.stringify(value)\<close> with no replacer and no indentation.\<close>

definition JSON_stringify :: "jsvalue \<Rightarrow> string option" where
  "JSON_stringify v = SerializeJSONProperty v"

text \<open>A value of \<open>JSON.stringify\<close> inside a template literal.\<close>

definition template_opt :: "string option \<Rightarrow> string" where
  "template_opt x = (case x of None \<Rightarrow> ''undefined'' | Some t \<Rightarrow> t)"

text \<open>\<open>JSON.stringify\<close> of an object literal: always a string.\<close>

definition JSON_stringify_object :: "(string \<times> jsvalue) list \<Rightarrow> string" where
  "JSON_stringify_object ps = ''{'' @ join '','' (SerializeJSONObject ps) @ ''}''"


section \<open>Effects: exceptions and the runtime's primitives\<close>

text \<open>
  What a \<open>throw\<close> carries: an \<open>Error\<close> object with its message, or any other thrown value.
\<close>

datatype exn = Error string | Thrown jsvalue

text \<open>
  An awaited computation runs against the state of the world \<open>'s\<close> and either throws or
  returns a value; in both cases it leaves a new state behind.
\<close>

type_synonym ('s, 'a) io = "'s \<Rightarrow> (exn + 'a) \<times> 's"

definition io_return :: "'a \<Rightarrow> ('s, 'a) io" where
  "io_return x = (\<lambda>s. (Inr x, s))"

definition io_throw :: "exn \<Rightarrow> ('s, 'a) io" where
  "io_throw e = (\<lambda>s. (Inl e, s))"

definition io_bind :: "('s, 'a) io \<Rightarrow> ('a \<Rightarrow> ('s, 'b) io) \<Rightarrow> ('s, 'b) io" where
  "io_bind m f = (\<lambda>s. case m s of (Inl e, s') \<Rightarrow> (Inl e, s') | (Inr x, s') \<Rightarrow> f x s')"

definition io_catch :: "('s, 'a) io \<Rightarrow> (exn \<Rightarrow> ('s, 'a) io) \<Rightarrow> ('s, 'a) io" where
  "io_catch m h = (\<lambda>s. case m s of (Inl e, s') \<Rightarrow> h e s' | (Inr x, s') \<Rightarrow> (Inr x, s'))"

text \<open>An effect that cannot throw, and the settled outcome of one that was awaited before.\<close>

definition io_get :: "('s \<Rightarrow> 'a \<times> 's) \<Rightarrow> ('s, 'a) io" where
  "io_get f = (\<lambda>s. case f s of (x, s') \<Rightarrow> (Inr x, s'))"

definition io_settled :: "exn + 'a \<Rightarrow> ('s, 'a) io" where
  "io_settled r = (\<lambda>s. (r, s))"

text \<open>The request handed to \<open>fetch\<close> and the response it resolves to.\<close>

record request =
  url :: string
  http_method :: string
  headers :: "(string \<times> string) list"
  body :: "string option"

record response =
  resp_ok :: bool
  resp_status :: nat
  resp_statusText :: string
  resp_text :: "exn + string"
  resp_json :: "exn + jsvalue"

text \<open>
  The primitives of the runtime that the program calls, with the arguments it passes
  them. They are not code of this repository, so they are parameters of the model; \<open>'k\<close>
  is the runtime's key handle.
  \<^item> \<open>subtle_importKey format keyData (name, hash) extractable usages\<close>
  \<^item> \<open>subtle_sign algorithm key data\<close>
  \<^item> \<open>subtle_digest algorithm data\<close>
  \<^item> \<open>fetch request\<close>
  \<^item> \<open>Date_now\<close>, in milliseconds
  \<^item> \<open>console_warn message\<close>
\<close>

record ('s, 'k) runtime =
  subtle_importKey ::
    "string \<Rightarrow> byte list \<Rightarrow> string \<times> string \<Rightarrow> bool \<Rightarrow> string list \<Rightarrow> ('s, 'k) io"
  subtle_sign :: "string \<Rightarrow> 'k \<Rightarrow> byte list \<Rightarrow> ('s, byte list) io"
  subtle_digest :: "string \<Rightarrow> byte list \<Rightarrow> ('s, byte list) io"
  fetch :: "request \<Rightarrow> ('s, response) io"
  Date_now :: "'s \<Rightarrow> int \<times> 's"
  console_warn :: "string \<Rightarrow> 's \<Rightarrow> 's"


section \<open>The Pusher client: construction and the request signer\<close>

record PusherConfig =
  cfg_appId :: string
  cfg_key :: string
  cfg_secret :: string
  cfg_cluster :: "string option"
  cfg_useTLS :: "bool option"

record Pusher =
  appId :: string
  key :: string
  secret :: string
  cluster :: string
  useTLS :: bool
  baseUrl :: string

text \<open>The constructor of \<open>Pusher\<close>.\<close>

definition Pusher_new :: "PusherConfig \<Rightarrow> exn + Pusher" where
  "Pusher_new config =
     (if \<not> truthy_string (cfg_appId config) \<or> \<not> truthy_string (cfg_key config)
         \<or> \<not> truthy_string (cfg_secret config)
      then Inl (Error ''Pusher config requires appId, key, and secret'')
      else
        let cluster' = opt_or_else (cfg_cluster config) ''mt1'';
            useTLS' = (cfg_useTLS config \<noteq> Some False);
            protocol = (if useTLS' then ''https'' else ''http'')
        in Inr \<lparr> appId = cfg_appId config, key = cfg_key config, secret = cfg_secret config,
                 cluster = cluster', useTLS = useTLS',
                 baseUrl = protocol @ ''://api-'' @ cluster' @ ''.pusher.com'' \<rparr>)"

text \<open>The two local constants of \<open>createSignature\<close> that hold the canonical text.\<close>

definition createSignature_queryParams :: "Pusher \<Rightarrow> int \<Rightarrow> string option \<Rightarrow> string" where
  "createSignature_queryParams this timestamp md5 =
     join ''&''
       ([''auth_key='' @ key this,
         ''auth_timestamp='' @ Number_toString timestamp,
         ''auth_version=1.0'']
        @ (case md5 of
             None \<Rightarrow> []
           | Some d \<Rightarrow> if truthy_string d then [''body_md5='' @ d] else []))"

definition createSignature_stringToSign ::
  "Pusher \<Rightarrow> string \<Rightarrow> string \<Rightarrow> int \<Rightarrow> string option \<Rightarrow> string" where
  "createSignature_stringToSign this method path timestamp md5 =
     method @ [CHR 0x0A] @ path @ [CHR 0x0A] @ createSignature_queryParams this timestamp md5"

text \<open>\<open>Pusher.createSignature(method, path, timestamp, body?, md5?)\<close>.\<close>

definition createSignature ::
  "('s, 'k) runtime \<Rightarrow> Pusher \<Rightarrow> string \<Rightarrow> string \<Rightarrow> int \<Rightarrow> string option \<Rightarrow> string option
     \<Rightarrow> ('s, string) io" where
  "createSignature R this method path timestamp body_arg md5 =
     (let stringToSign = createSignature_stringToSign this method path timestamp md5;
          encodedData = TextEncoder_encode stringToSign;
          encodedSecret = TextEncoder_encode (secret this)
      in io_bind (subtle_importKey R ''raw'' encodedSecret (''HMAC'', ''SHA-256'') False [''sign''])
           (\<lambda>cryptoKey. io_bind (subtle_sign R ''HMAC'' cryptoKey encodedData)
              (\<lambda>signatureBuffer. io_return (hex_of_bytes signatureBuffer))))"

text \<open>\<open>Pusher.computeHMAC(data)\<close>.\<close>

definition computeHMAC :: "('s, 'k) runtime \<Rightarrow> Pusher \<Rightarrow> string \<Rightarrow> ('s, string) io" where
  "computeHMAC R this data =
     (let encodedData = TextEncoder_encode data;
          encodedSecret = TextEncoder_encode (secret this)
      in io_bind (subtle_importKey R ''raw'' encodedSecret (''HMAC'', ''SHA-256'') False [''sign''])
           (\<lambda>cryptoKey. io_bind (subtle_sign R ''HMAC'' cryptoKey encodedData)
              (\<lambda>signatureBuffer. io_return (hex_of_bytes signatureBuffer))))"

text \<open>\<open>Pusher.computeMD5(str)\<close>: the digest in hex, or the empty string with a warning.\<close>

definition computeMD5 :: "('s, 'k) runtime \<Rightarrow> Pusher \<Rightarrow> string \<Rightarrow> ('s, string) io" where
  "computeMD5 R this str =
     (let data = TextEncoder_encode str
      in io_catch
           (io_bind (subtle_digest R ''MD5'' data)
              (\<lambda>hashBuffer. io_return (hex_of_bytes hashBuffer)))
           (\<lambda>e s. (Inr [], console_warn R ''MD5 not available, using empty hash'' s)))"


section \<open>Channel authorization\<close>

record AuthResponse =
  auth :: string
  channel_data :: "string option"
  shared_secret :: "string option"

text \<open>\<open>Pusher.authorizeChannel(socketId, channel)\<close>.\<close>

definition authorizeChannel ::
  "('s, 'k) runtime \<Rightarrow> Pusher \<Rightarrow> string \<Rightarrow> string \<Rightarrow> ('s, AuthResponse) io" where
  "authorizeChannel R this socketId channel =
     (if \<not> truthy_string socketId \<or> \<not> truthy_string channel
      then io_throw (Error ''Socket ID and channel are required for authorization'')
      else
        let stringToSign = socketId @ '':'' @ channel
        in io_bind (computeHMAC R this stringToSign)
             (\<lambda>signature.
                let auth' = key this @ '':'' @ signature
                in io_return \<lparr> auth = auth', channel_data = None, shared_secret = None \<rparr>))"

text \<open>\<open>Pusher.authenticatePresenceChannel(socketId, channel, presenceData)\<close>.\<close>

definition authenticatePresenceChannel ::
  "('s, 'k) runtime \<Rightarrow> Pusher \<Rightarrow> string \<Rightarrow> string \<Rightarrow> jsvalue \<Rightarrow> ('s, AuthResponse) io" where
  "authenticatePresenceChannel R this socketId channel presenceData =
     (if \<not> truthy_string socketId \<or> \<not> truthy_string channel \<or> \<not> truthy presenceData
      then io_throw (Error ''Socket ID, channel, and presence data are required'')
      else if \<not> truthy (get_property presenceData ''user_id'')
      then io_throw (Error ''user_id is required in presence data'')
      else
        let channelData = JSON_stringify presenceData;
            stringToSign = socketId @ '':'' @ channel @ '':'' @ template_opt channelData
        in io_bind (computeHMAC R this stringToSign)
             (\<lambda>signature.
                let auth' = key this @ '':'' @ signature
                in io_return \<lparr> auth = auth', channel_data = channelData,
                               shared_secret = None \<rparr>))"


section \<open>The standalone \<open>PusherAuth\<close> class\<close>

record PusherAuth =
  pa_key :: string
  pa_secret :: string

text \<open>The constructor of \<open>PusherAuth\<close> only stores its two arguments.\<close>

definition PusherAuth_new :: "string \<Rightarrow> string \<Rightarrow> PusherAuth" where
  "PusherAuth_new k s = \<lparr> pa_key = k, pa_secret = s \<rparr>"

text \<open>\<open>PusherAuth.computeHMAC(data)\<close>.\<close>

definition PusherAuth_computeHMAC ::
  "('s, 'k) runtime \<Rightarrow> PusherAuth \<Rightarrow> string \<Rightarrow> ('s, string) io" where
  "PusherAuth_computeHMAC R this data =
     (let encodedData = TextEncoder_encode data;
          encodedSecret = TextEncoder_encode (pa_secret this)
      in io_bind (subtle_importKey R ''raw'' encodedSecret (''HMAC'', ''SHA-256'') False [''sign''])
           (\<lambda>cryptoKey. io_bind (subtle_sign R ''HMAC'' cryptoKey encodedData)
              (\<lambda>signatureBuffer. io_return (hex_of_bytes signatureBuffer))))"

text \<open>\<open>PusherAuth.authorizeChannel(socketId, channel)\<close>.\<close>

definition PusherAuth_authorizeChannel ::
  "('s, 'k) runtime \<Rightarrow> PusherAuth \<Rightarrow> string \<Rightarrow> string \<Rightarrow> ('s, AuthResponse) io" where
  "PusherAuth_authorizeChannel R this socketId channel =
     (if \<not> truthy_string socketId \<or> \<not> truthy_string channel
      then io_throw (Error ''Socket ID and channel are required for authorization'')
      else
        let stringToSign = socketId @ '':'' @ channel
        in io_bind (PusherAuth_computeHMAC R this stringToSign)
             (\<lambda>signature.
                let auth' = pa_key this @ '':'' @ signature
                in io_return \<lparr> auth = auth', channel_data = None, shared_secret = None \<rparr>))"

text \<open>\<open>PusherAuth.authenticatePresenceChannel(socketId, channel, presenceData)\<close>.\<close>

definition PusherAuth_authenticatePresenceChannel ::
  "('s, 'k) runtime \<Rightarrow> PusherAuth \<Rightarrow> string \<Rightarrow> string \<Rightarrow> jsvalue \<Rightarrow> ('s, AuthResponse) io" where
  "PusherAuth_authenticatePresenceChannel R this socketId channel presenceData =
     (if \<not> truthy_string socketId \<or> \<not> truthy_string channel \<or> \<not> truthy presenceData
      then io_throw (Error ''Socket ID, channel, and presence data are required'')
      else if \<not> truthy (get_property presenceData ''user_id'')
      then io_throw (Error ''user_id is required in presence data'')
      else
        let channelData = JSON_stringify presenceData;
            stringToSign = socketId @ '':'' @ channel @ '':'' @ template_opt channelData
        in io_bind (PusherAuth_computeHMAC R this stringToSign)
             (\<lambda>signature.
                let auth' = pa_key this @ '':'' @ signature
                in io_return \<lparr> auth = auth', channel_data = channelData,
                               shared_secret = None \<rparr>))"


section \<open>The REST calls\<close>

text \<open>
  A \<open>URLSearchParams\<close> object is the list of its pairs. Its string is the
  \<open>application/x-www-form-urlencoded\<close> serialisation: letters, digits and \<open>* - . _\<close> stay,
  a space becomes \<open>+\<close>, every other byte of the UTF-8 text becomes \<open>%XX\<close>.
\<close>

type_synonym URLSearchParams = "(string \<times> string) list"

definition percent_byte :: "byte \<Rightarrow> string" where
  "percent_byte b =
     [CHR ''%'', ''0123456789ABCDEF'' ! (unat b div 16), ''0123456789ABCDEF'' ! (unat b mod 16)]"

definition urlencode_char :: "char \<Rightarrow> string" where
  "urlencode_char c =
     (if c \<in> set ''ABCDEFGHIJKLMNOPQRSTUVWXYZabcdefghijklmnopqrstuvwxyz0123456789*-._''
      then [c]
      else if c = CHR '' '' then ''+''
      else concat (map percent_byte (encode_char c)))"

definition urlencode :: "string \<Rightarrow> string" where
  "urlencode s = concat (map urlencode_char s)"

definition URLSearchParams_toString :: "URLSearchParams \<Rightarrow> string" where
  "URLSearchParams_toString q = join ''&'' (map (\<lambda>p. urlencode (fst p) @ ''='' @ urlencode (snd p)) q)"

text \<open>
  \<open>query.set(name, value)\<close>: the first pair of that name takes the value and the others
  of that name go; with no such pair, a new one is appended.
\<close>

definition URLSearchParams_set :: "string \<Rightarrow> string \<Rightarrow> URLSearchParams \<Rightarrow> URLSearchParams" where
  "URLSearchParams_set name v q =
     (if name \<in> set (map fst q)
      then takeWhile (\<lambda>p. fst p \<noteq> name) q @ [(name, v)]
           @ filter (\<lambda>p. fst p \<noteq> name) (tl (dropWhile (\<lambda>p. fst p \<noteq> name) q))
      else q @ [(name, v)])"

datatype channels_arg = Channel string | Channels "string list"

record TriggerOptions =
  opt_channels :: channels_arg
  opt_event :: string
  opt_data :: jsvalue
  opt_socketId :: "string option"

text \<open>The two overloads of \<open>trigger\<close>.\<close>

datatype trigger_args =
    Positional channels_arg string jsvalue "string option"
  | WithOptions TriggerOptions

record BatchTriggerEvent =
  ev_channel :: string
  ev_name :: string
  ev_data :: jsvalue
  ev_socketId :: "string option"

record TriggerResponse =
  success :: bool
  error :: "string option"
  status :: "nat option"

record ChannelInfoOptions =
  info :: "string list option"

text \<open>\<open>Array.isArray(c) ? c : [c]\<close>.\<close>

fun channel_list :: "channels_arg \<Rightarrow> string list" where
  "channel_list (Channel c) = [c]"
| "channel_list (Channels cs) = cs"

text \<open>\<open>typeof data === 'string' ? data : JSON.stringify(data)\<close>, as a property value.\<close>

definition data_field :: "jsvalue \<Rightarrow> jsvalue" where
  "data_field d =
     (case d of
        JString t \<Rightarrow> JString t
      | _ \<Rightarrow> (case JSON_stringify d of None \<Rightarrow> JUndefined | Some t \<Rightarrow> JString t))"

text \<open>The \<open>catch\<close> block shared by \<open>trigger\<close> and \<open>triggerBatch\<close>.\<close>

definition caught :: "exn \<Rightarrow> ('s, TriggerResponse) io" where
  "caught e =
     io_return \<lparr> success = False,
                 error = Some (case e of Error m \<Rightarrow> m | Thrown v \<Rightarrow> ''Unknown error''),
                 status = None \<rparr>"

text \<open>What both calls do with the response of \<open>fetch\<close>.\<close>

definition read_response :: "response \<Rightarrow> ('s, TriggerResponse) io" where
  "read_response r =
     (if \<not> resp_ok r
      then io_bind (io_settled (resp_text r))
             (\<lambda>errorText.
                io_return \<lparr> success = False,
                            error = Some (or_else errorText
                                       (''HTTP '' @ Number_toString (int (resp_status r)))),
                            status = Some (resp_status r) \<rparr>)
      else io_bind (io_settled (resp_text r))
             (\<lambda>_. io_return \<lparr> success = True, error = None, status = None \<rparr>))"

text \<open>\<open>Math.floor(Date.now() / 1000)\<close>.\<close>

definition timestamp_now :: "('s, 'k) runtime \<Rightarrow> ('s, int) io" where
  "timestamp_now R = io_bind (io_get (Date_now R)) (\<lambda>now. io_return (now div 1000))"

text \<open>
  \<open>const query = new URLSearchParams({...})\<close> in \<open>trigger\<close> and in \<open>triggerBatch\<close>, which
  have the same text there.
\<close>

definition trigger_query :: "Pusher \<Rightarrow> int \<Rightarrow> string \<Rightarrow> string \<Rightarrow> URLSearchParams" where
  "trigger_query this timestamp md5 signature =
     [(''auth_key'', key this),
      (''auth_timestamp'', Number_toString timestamp),
      (''auth_version'', ''1.0''),
      (''body_md5'', md5),
      (''auth_signature'', signature)]"

text \<open>
  The \<open>body\<close> of \<open>trigger\<close>: the overload is resolved, the payload is built (with
  \<open>socket_id\<close> only for a truthy socket id) and serialised.
\<close>

definition trigger_body :: "trigger_args \<Rightarrow> string" where
  "trigger_body args =
     (let (channels, eventName, eventData, excludeSocketId) =
            (case args of
               WithOptions options \<Rightarrow>
                 (channel_list (opt_channels options), opt_event options, opt_data options,
                  opt_socketId options)
             | Positional channelsOrOptions event d socketId \<Rightarrow>
                 (channel_list channelsOrOptions, event, d, socketId));
          payload = [(''name'', JString eventName),
                     (''data'', data_field eventData),
                     (''channels'', JArray (map JString channels))]
                    @ (case excludeSocketId of
                         None \<Rightarrow> []
                       | Some sid \<Rightarrow>
                           if truthy_string sid then [(''socket_id'', JString sid)] else [])
      in JSON_stringify_object payload)"

text \<open>\<open>Pusher.trigger\<close>, both overloads.\<close>

definition trigger :: "('s, 'k) runtime \<Rightarrow> Pusher \<Rightarrow> trigger_args \<Rightarrow> ('s, TriggerResponse) io" where
  "trigger R this args =
     io_bind (timestamp_now R)
       (\<lambda>timestamp.
          let body_str = trigger_body args
          in io_catch
               (io_bind (computeMD5 R this body_str)
                  (\<lambda>md5.
                     io_bind (createSignature R this ''POST''
                                (''/apps/'' @ appId this @ ''/events'') timestamp
                                (Some body_str) (Some md5))
                       (\<lambda>signature.
                          let query = trigger_query this timestamp md5 signature;
                              url' = baseUrl this @ ''/apps/'' @ appId this @ ''/events?''
                                     @ URLSearchParams_toString query
                          in io_bind
                               (fetch R \<lparr> url = url', http_method = ''POST'',
                                          headers = [(''Content-Type'', ''application/json'')],
                                          body = Some body_str \<rparr>)
                               read_response)))
               caught)"

text \<open>The \<open>body\<close> of \<open>triggerBatch\<close>.\<close>

definition batch_entry :: "BatchTriggerEvent \<Rightarrow> jsvalue" where
  "batch_entry event =
     JObject ([(''channel'', JString (ev_channel event)),
               (''name'', JString (ev_name event)),
               (''data'', data_field (ev_data event))]
              @ (case ev_socketId event of
                   None \<Rightarrow> []
                 | Some sid \<Rightarrow> if truthy_string sid then [(''socket_id'', JString sid)] else []))"

definition triggerBatch_body :: "BatchTriggerEvent list \<Rightarrow> string" where
  "triggerBatch_body events =
     (let batch = map batch_entry events;
          payload = [(''batch'', JArray batch)]
      in JSON_stringify_object payload)"

text \<open>\<open>Pusher.triggerBatch(events)\<close>.\<close>

definition triggerBatch ::
  "('s, 'k) runtime \<Rightarrow> Pusher \<Rightarrow> BatchTriggerEvent list \<Rightarrow> ('s, TriggerResponse) io" where
  "triggerBatch R this events =
     io_bind (timestamp_now R)
       (\<lambda>timestamp.
          let body_str = triggerBatch_body events
          in io_catch
               (io_bind (computeMD5 R this body_str)
                  (\<lambda>md5.
                     io_bind (createSignature R this ''POST''
                                (''/apps/'' @ appId this @ ''/batch_events'') timestamp
                                (Some body_str) (Some md5))
                       (\<lambda>signature.
                          let query = trigger_query this timestamp md5 signature;
                              url' = baseUrl this @ ''/apps/'' @ appId this @ ''/batch_events?''
                                     @ URLSearchParams_toString query
                          in io_bind
                               (fetch R \<lparr> url = url', http_method = ''POST'',
                                          headers = [(''Content-Type'', ''application/json'')],
                                          body = Some body_str \<rparr>)
                               read_response)))
               caught)"

text \<open>\<open>...(options?.info && { info: options.info.join(',') })\<close>: an array is always truthy.\<close>

definition info_param :: "ChannelInfoOptions option \<Rightarrow> URLSearchParams" where
  "info_param options =
     (case options of
        None \<Rightarrow> []
      | Some opts \<Rightarrow> (case info opts of None \<Rightarrow> [] | Some xs \<Rightarrow> [(''info'', join '','' xs)]))"

text \<open>\<open>...(prefix && { filter_by_prefix: prefix })\<close>.\<close>

definition prefix_param :: "string option \<Rightarrow> URLSearchParams" where
  "prefix_param prefix =
     (case prefix of
        None \<Rightarrow> []
      | Some p \<Rightarrow> if truthy_string p then [(''filter_by_prefix'', p)] else [])"

text \<open>\<open>const query = new URLSearchParams({...})\<close> in \<open>getChannel\<close> and in \<open>getChannels\<close>.\<close>

definition getChannel_query :: "Pusher \<Rightarrow> int \<Rightarrow> ChannelInfoOptions option \<Rightarrow> URLSearchParams" where
  "getChannel_query this timestamp options =
     [(''auth_key'', key this),
      (''auth_timestamp'', Number_toString timestamp),
      (''auth_version'', ''1.0'')]
     @ info_param options"

definition getChannels_query ::
  "Pusher \<Rightarrow> int \<Rightarrow> string option \<Rightarrow> ChannelInfoOptions option \<Rightarrow> URLSearchParams" where
  "getChannels_query this timestamp prefix options =
     [(''auth_key'', key this),
      (''auth_timestamp'', Number_toString timestamp),
      (''auth_version'', ''1.0'')]
     @ prefix_param prefix @ info_param options"

text \<open>
  The \<open>fetch\<close> of both channel queries and what they do with the response; the two
  differ in the message of the error only.
\<close>

definition fetch_json :: "('s, 'k) runtime \<Rightarrow> string \<Rightarrow> string \<Rightarrow> ('s, jsvalue) io" where
  "fetch_json R url' failure =
     io_bind (fetch R \<lparr> url = url', http_method = ''GET'',
                          headers = [(''Content-Type'', ''application/json'')],
                          body = None \<rparr>)
       (\<lambda>r. if \<not> resp_ok r
             then io_bind (io_settled (resp_text r))
                    (\<lambda>err. io_throw (Error (failure @ or_else err (resp_statusText r))))
             else io_settled (resp_json r))"

text \<open>\<open>Pusher.getChannel(channel, options?)\<close>.\<close>

definition getChannel ::
  "('s, 'k) runtime \<Rightarrow> Pusher \<Rightarrow> string \<Rightarrow> ChannelInfoOptions option \<Rightarrow> ('s, jsvalue) io" where
  "getChannel R this channel options =
     io_bind (timestamp_now R)
       (\<lambda>timestamp.
          let path = ''/apps/'' @ appId this @ ''/channels/'' @ channel;
              query = getChannel_query this timestamp options
          in io_bind (createSignature R this ''GET'' path timestamp None None)
               (\<lambda>signature.
                  let query' = URLSearchParams_set ''auth_signature'' signature query;
                      url' = baseUrl this @ path @ ''?'' @ URLSearchParams_toString query'
                  in fetch_json R url' ''Failed to get channel info: ''))"

text \<open>\<open>Pusher.getChannels(prefix?, options?)\<close>.\<close>

definition getChannels ::
  "('s, 'k) runtime \<Rightarrow> Pusher \<Rightarrow> string option \<Rightarrow> ChannelInfoOptions option \<Rightarrow> ('s, jsvalue) io" where
  "getChannels R this prefix options =
     io_bind (timestamp_now R)
       (\<lambda>timestamp.
          let path = ''/apps/'' @ appId this @ ''/channels'';
              query = getChannels_query this timestamp prefix options
          in io_bind (createSignature R this ''GET'' path timestamp None None)
               (\<lambda>signature.
                  let query' = URLSearchParams_set ''auth_signature'' signature query;
                      url' = baseUrl this @ path @ ''?'' @ URLSearchParams_toString query'
                  in fetch_json R url' ''Failed to get channels: ''))"


section \<open>\<open>JSON.parse\<close>\<close>

text \<open>
  The runtime's \<open>JSON.parse\<close>, which the program never calls but a subscriber applies to
  \<open>channel_data\<close>. Numbers are integers as in \<^typ>\<open>jsvalue\<close>: a fraction or an exponent is
  outside the model and gives \<open>None\<close>, like a syntax error. So does an escape \<open>\uXXXX\<close> above
  U+00FF.
\<close>

definition is_ws :: "char \<Rightarrow> bool" where
  "is_ws c = (c = CHR '' '' \<or> c = CHR 0x09 \<or> c = CHR 0x0A \<or> c = CHR 0x0D)"

definition skip_ws :: "string \<Rightarrow> string" where
  "skip_ws cs = dropWhile is_ws cs"

definition starts_with :: "char \<Rightarrow> string \<Rightarrow> bool" where
  "starts_with c cs = (case cs of [] \<Rightarrow> False | x # _ \<Rightarrow> x = c)"

definition is_digit :: "char \<Rightarrow> bool" where
  "is_digit c = (48 \<le> (of_char c :: nat) \<and> (of_char c :: nat) \<le> 57)"

definition digit_value :: "char \<Rightarrow> nat" where
  "digit_value c = of_char c - 48"

definition digits_value :: "string \<Rightarrow> nat" where
  "digits_value ds = foldl (\<lambda>acc d. 10 * acc + digit_value d) 0 ds"

definition hex_value :: "char \<Rightarrow> nat option" where
  "hex_value c =
     (let n = (of_char c :: nat) in
      if 48 \<le> n \<and> n \<le> 57 then Some (n - 48)
      else if 97 \<le> n \<and> n \<le> 102 then Some (n - 87)
      else if 65 \<le> n \<and> n \<le> 70 then Some (n - 55)
      else None)"

text \<open>The character of \<open>\uXXXX\<close>.\<close>

definition hex4 :: "char \<Rightarrow> char \<Rightarrow> char \<Rightarrow> char \<Rightarrow> char option" where
  "hex4 a b c d =
     (case (hex_value a, hex_value b, hex_value c, hex_value d) of
        (Some x, Some y, Some z, Some w) \<Rightarrow>
          (let n = ((x * 16 + y) * 16 + z) * 16 + w in
           if n < 256 then Some (char_of n) else None)
      | _ \<Rightarrow> None)"

text \<open>The character of a two-character escape.\<close>

definition unescape :: "char \<Rightarrow> char option" where
  "unescape e =
     (if e = CHR 0x22 then Some (CHR 0x22)
      else if e = CHR 0x5C then Some (CHR 0x5C)
      else if e = CHR ''/'' then Some (CHR ''/'')
      else if e = CHR ''b'' then Some (CHR 0x08)
      else if e = CHR ''f'' then Some (CHR 0x0C)
      else if e = CHR ''n'' then Some (CHR 0x0A)
      else if e = CHR ''r'' then Some (CHR 0x0D)
      else if e = CHR ''t'' then Some (CHR 0x09)
      else None)"

text \<open>The characters of a string up to its closing quote, and the text after the quote.\<close>

fun parse_chars :: "string \<Rightarrow> (string \<times> string) option" where
  "parse_chars [] = None"
| "parse_chars (c # cs) =
     (if c = CHR 0x22 then Some ([], cs)
      else if c = CHR 0x5C then
        (case cs of
           [] \<Rightarrow> None
         | e # cs1 \<Rightarrow>
             if e = CHR ''u'' then
               (case cs1 of
                  h1 # h2 # h3 # h4 # cs2 \<Rightarrow>
                    (case hex4 h1 h2 h3 h4 of
                       None \<Rightarrow> None
                     | Some x \<Rightarrow>
                         (case parse_chars cs2 of
                            None \<Rightarrow> None
                          | Some (str, r) \<Rightarrow> Some (x # str, r)))
                | _ \<Rightarrow> None)
             else
               (case unescape e of
                  None \<Rightarrow> None
                | Some x \<Rightarrow>
                    (case parse_chars cs1 of
                       None \<Rightarrow> None
                     | Some (str, r) \<Rightarrow> Some (x # str, r))))
      else if (of_char c :: nat) < 32 then None
      else
        (case parse_chars cs of
           None \<Rightarrow> None
         | Some (str, r) \<Rightarrow> Some (c # str, r)))"

text \<open>A number: an optional minus sign and decimal digits without a leading zero.\<close>

definition parse_number :: "string \<Rightarrow> (jsvalue \<times> string) option" where
  "parse_number cs =
     (let negative = starts_with (CHR ''-'') cs;
          cs1 = (if negative then tl cs else cs);
          ds = takeWhile is_digit cs1;
          r = dropWhile is_digit cs1
      in if ds = [] \<or> (1 < length ds \<and> hd ds = CHR ''0'') then None
         else if starts_with (CHR ''.'') r \<or> starts_with (CHR ''e'') r \<or> starts_with (CHR ''E'') r
         then None
         else Some (JNumber (if negative then - int (digits_value ds) else int (digits_value ds)),
                    r))"

text \<open>One of the words \<open>null\<close>, \<open>true\<close>, \<open>false\<close>.\<close>

definition parse_word :: "string \<Rightarrow> jsvalue \<Rightarrow> string \<Rightarrow> (jsvalue \<times> string) option" where
  "parse_word w v cs = (if take (length w) cs = w then Some (v, drop (length w) cs) else None)"

text \<open>
  A property name is an array index when it is the decimal text of a number below
  \<open>2^32 - 1\<close>. The runtime enumerates the properties of an object with the array indices
  first, in ascending order, and the other names after them in the order of their
  creation; \<open>define_property\<close> creates or overwrites one property of an object kept in that
  order, and \<open>build_object\<close> is how \<open>JSON.parse\<close> makes an object from the members it read.
\<close>

definition is_array_index :: "string \<Rightarrow> bool" where
  "is_array_index k =
     (k \<noteq> [] \<and> list_all is_digit k \<and> (length k = 1 \<or> hd k \<noteq> CHR ''0'')
      \<and> digits_value k < 4294967295)"

definition define_property ::
  "string \<Rightarrow> jsvalue \<Rightarrow> (string \<times> jsvalue) list \<Rightarrow> (string \<times> jsvalue) list" where
  "define_property k v ps =
     (if k \<in> set (map fst ps) then map (\<lambda>p. if fst p = k then (k, v) else p) ps
      else if is_array_index k then
        takeWhile (\<lambda>p. is_array_index (fst p) \<and> digits_value (fst p) < digits_value k) ps
        @ [(k, v)]
        @ dropWhile (\<lambda>p. is_array_index (fst p) \<and> digits_value (fst p) < digits_value k) ps
      else ps @ [(k, v)])"

definition build_object :: "(string \<times> jsvalue) list \<Rightarrow> (string \<times> jsvalue) list" where
  "build_object ms = foldl (\<lambda>ps m. define_property (fst m) (snd m) ps) [] ms"

text \<open>
  A value, the elements of an array after the first bracket, and the members of an object
  after the first brace. The first argument bounds the number of nested calls; the length
  of the text is always enough.
\<close>

fun parse_value :: "nat \<Rightarrow> string \<Rightarrow> (jsvalue \<times> string) option"
  and parse_elements :: "nat \<Rightarrow> string \<Rightarrow> (jsvalue list \<times> string) option"
  and parse_members :: "nat \<Rightarrow> string \<Rightarrow> ((string \<times> jsvalue) list \<times> string) option" where
  "parse_value 0 cs = None"
| "parse_value (Suc k) cs =
     (case skip_ws cs of
        [] \<Rightarrow> None
      | c # r \<Rightarrow>
          if c = CHR 0x22 then
            (case parse_chars r of None \<Rightarrow> None | Some (str, r1) \<Rightarrow> Some (JString str, r1))
          else if c = CHR ''['' then
            (if starts_with (CHR '']'') (skip_ws r) then Some (JArray [], tl (skip_ws r))
             else (case parse_elements k r of
                     None \<Rightarrow> None
                   | Some (vs, r1) \<Rightarrow> Some (JArray vs, r1)))
          else if c = CHR ''{'' then
            (if starts_with (CHR ''}'') (skip_ws r) then Some (JObject [], tl (skip_ws r))
             else (case parse_members k r of
                     None \<Rightarrow> None
                   | Some (ms, r1) \<Rightarrow> Some (JObject (build_object ms), r1)))
          else if c = CHR ''n'' then parse_word ''null'' JNull (c # r)
          else if c = CHR ''t'' then parse_word ''true'' (JBoolean True) (c # r)
          else if c = CHR ''f'' then parse_word ''false'' (JBoolean False) (c # r)
          else parse_number (c # r))"
| "parse_elements 0 cs = None"
| "parse_elements (Suc k) cs =
     (case parse_value k cs of
        None \<Rightarrow> None
      | Some (v, r) \<Rightarrow>
          if starts_with (CHR '','') (skip_ws r) then
            (case parse_elements k (tl (skip_ws r)) of
               None \<Rightarrow> None
             | Some (vs, r1) \<Rightarrow> Some (v # vs, r1))
          else if starts_with (CHR '']'') (skip_ws r) then Some ([v], tl (skip_ws r))
          else None)"
| "parse_members 0 cs = None"
| "parse_members (Suc k) cs =
     (if \<not> starts_with (CHR 0x22) (skip_ws cs) then None
      else
        (case parse_chars (tl (skip_ws cs)) of
           None \<Rightarrow> None
         | Some (name, r) \<Rightarrow>
             if \<not> starts_with (CHR '':'') (skip_ws r) then None
             else
               (case parse_value k (tl (skip_ws r)) of
                  None \<Rightarrow> None
                | Some (v, r1) \<Rightarrow>
                    if starts_with (CHR '','') (skip_ws r1) then
                      (case parse_members k (tl (skip_ws r1)) of
                         None \<Rightarrow> None
                       | Some (ms, r2) \<Rightarrow> Some ((name, v) # ms, r2))
                    else if starts_with (CHR ''}'') (skip_ws r1) then Some ([(name, v)], tl (skip_ws r1))
                    else None)))"

text \<open>\<open>JSON.parse(text)\<close>: one value and nothing but white space after it.\<close>

definition JSON_parse :: "string \<Rightarrow> jsvalue option" where
  "JSON_parse txt =
     (case parse_value (Suc (length txt)) txt of
        None \<Rightarrow> None
      | Some (v, r) \<Rightarrow> if skip_ws r = [] then Some v else None)"

text \<open>
  The values that JSON can represent: no \<open>undefined\<close> and no \<open>NaN\<close> anywhere, and every
  object in the runtime's order of enumeration, with no name twice. The names of an object
  are checked from the last one back: each must be new, and an array index must come after
  smaller array indices only.
\<close>

definition addable :: "string \<Rightarrow> string list \<Rightarrow> bool" where
  "addable k ks =
     (k \<notin> set ks
      \<and> (is_array_index k \<longrightarrow>
           list_all (\<lambda>k'. is_array_index k' \<and> digits_value k' < digits_value k) ks))"

fun names_in_order_rev :: "string list \<Rightarrow> bool" where
  "names_in_order_rev [] = True"
| "names_in_order_rev (k # earlier) = (addable k earlier \<and> names_in_order_rev earlier)"

definition names_in_order :: "string list \<Rightarrow> bool" where
  "names_in_order ks = names_in_order_rev (rev ks)"

fun json_value :: "jsvalue \<Rightarrow> bool"
  and json_values :: "jsvalue list \<Rightarrow> bool"
  and json_members :: "(string \<times> jsvalue) list \<Rightarrow> bool" where
  "json_value JUndefined = False"
| "json_value JNull = True"
| "json_value (JBoolean b) = True"
| "json_value (JNumber n) = True"
| "json_value JNaN = False"
| "json_value (JString s) = True"
| "json_value (JArray xs) = json_values xs"
| "json_value (JObject ps) = (names_in_order (map fst ps) \<and> json_members ps)"
| "json_values [] = True"
| "json_values (x # xs) = (json_value x \<and> json_values xs)"
| "json_members [] = True"
| "json_members (p # ps) = (json_value (snd p) \<and> json_members ps)"


section \<open>The specification's wording of the signing step\<close>

text \<open>
  Lowercase hex, two digits for each byte, and the HMAC-SHA256 of a message under a
  secret, both strings UTF-8 encoded, as the runtime's primitives compute it.
\<close>

definition lower_hex_digit :: "nat \<Rightarrow> char" where
  "lower_hex_digit d = ''0123456789abcdef'' ! d"

definition lower_hex :: "byte list \<Rightarrow> string" where
  "lower_hex bs =
     concat (map (\<lambda>b. [lower_hex_digit (unat b div 16), lower_hex_digit (unat b mod 16)]) bs)"

definition HMAC_SHA256_hex :: "('s, 'k) runtime \<Rightarrow> string \<Rightarrow> string \<Rightarrow> ('s, string) io" where
  "HMAC_SHA256_hex R secret_str message =
     io_bind (subtle_importKey R ''raw'' (TextEncoder_encode secret_str) (''HMAC'', ''SHA-256'')
                False [''sign''])
       (\<lambda>k. io_bind (subtle_sign R ''HMAC'' k (TextEncoder_encode message))
          (\<lambda>mac. io_return (lower_hex mac)))"

text \<open>
  The canonical query string of the request signer: the pairs \<open>auth_key\<close>,
  \<open>auth_timestamp\<close>, \<open>auth_version\<close> and, only for a non-empty digest, \<open>body_md5\<close>.
\<close>

definition spec_queryString :: "string \<Rightarrow> int \<Rightarrow> string option \<Rightarrow> string" where
  "spec_queryString k timestamp digest =
     ''auth_key='' @ k @ ''&'' @ ''auth_timestamp='' @ Number_toString timestamp @ ''&''
     @ ''auth_version=1.0''
     @ (case digest of
          None \<Rightarrow> []
        | Some d \<Rightarrow> if d = [] then [] else ''&'' @ ''body_md5='' @ d)"


text \<open>
  The signing step fails with \<open>e\<close> and leaves the world in \<open>s'\<close>: the one \<open>importKey\<close> call
  throws \<open>e\<close>, or it returns a key and the one \<open>sign\<close> call that follows throws \<open>e\<close>.
\<close>

definition hmac_throws ::
  "('s, 'k) runtime \<Rightarrow> string \<Rightarrow> string \<Rightarrow> 's \<Rightarrow> exn \<Rightarrow> 's \<Rightarrow> bool" where
  "hmac_throws R secret_str message s e s' =
     (case subtle_importKey R ''raw'' (TextEncoder_encode secret_str) (''HMAC'', ''SHA-256'')
             False [''sign''] s of
        (Inl e1, s1) \<Rightarrow> e1 = e \<and> s1 = s'
      | (Inr k, s1) \<Rightarrow> subtle_sign R ''HMAC'' k (TextEncoder_encode message) s1 = (Inl e, s'))"


section \<open>A runtime for running the model\<close>

text \<open>
  A deterministic stand-in for the runtime: the state of the world is the list of the
  primitive calls made so far, a key handle is the raw key, and a setup says which
  primitives throw, what the clock shows and what \<open>fetch\<close> resolves to.
\<close>

datatype call =
    ImportKey string "byte list" "string \<times> string" bool "string list"
  | Sign string "byte list" "byte list"
  | Digest string "byte list"
  | Fetch request
  | Now
  | Warn string

record test_setup =
  importKey_fails :: bool
  sign_fails :: bool
  digest_fails :: bool
  clock :: int
  reply :: "exn + response"

definition test_mac :: "byte list \<Rightarrow> byte list \<Rightarrow> byte list" where
  "test_mac k d = map (\<lambda>i. of_nat (i * length k + 7 * length d)) [0..<32]"

definition test_digest :: "byte list \<Rightarrow> byte list" where
  "test_digest d = map (\<lambda>i. of_nat (i + 3 * length d)) [0..<16]"

definition test_runtime :: "test_setup \<Rightarrow> (call list, byte list) runtime" where
  "test_runtime T =
     \<lparr> subtle_importKey = (\<lambda>format keyData alg extractable usages s.
          (if importKey_fails T then Inl (Error ''DataError'') else Inr keyData,
           s @ [ImportKey format keyData alg extractable usages])),
       subtle_sign = (\<lambda>alg k d s.
          (if sign_fails T then Inl (Error ''OperationError'') else Inr (test_mac k d),
           s @ [Sign alg k d])),
       subtle_digest = (\<lambda>alg d s.
          (if digest_fails T then Inl (Error ''NotSupportedError'') else Inr (test_digest d),
           s @ [Digest alg d])),
       fetch = (\<lambda>r s. (reply T, s @ [Fetch r])),
       Date_now = (\<lambda>s. (clock T, s @ [Now])),
       console_warn = (\<lambda>m s. s @ [Warn m]) \<rparr>"

definition ok_response :: response where
  "ok_response = \<lparr> resp_ok = True, resp_status = 200, resp_statusText = ''OK'',
                    resp_text = Inr ''{}'', resp_json = Inr (JObject []) \<rparr>"

definition working :: test_setup where
  "working = \<lparr> importKey_fails = False, sign_fails = False, digest_fails = False,
               clock = 1700000000123, reply = Inr ok_response \<rparr>"

definition test_pusher :: Pusher where
  "test_pusher = \<lparr> appId = ''4711'', key = ''278d425bdf160c739803'',
                   secret = ''7ad3773142a6692b25b8'', cluster = ''mt1'', useTLS = True,
                   baseUrl = ''https://api-mt1.pusher.com'' \<rparr>"


definition test_config :: PusherConfig where
  "test_config = \<lparr> cfg_appId = ''4711'', cfg_key = ''278d425bdf160c739803'',
                   cfg_secret = ''7ad3773142a6692b25b8'', cfg_cluster = None,
                   cfg_useTLS = None \<rparr>"

text \<open>The member data of the protocol's published example.\<close>

definition mr_pusher :: jsvalue where
  "mr_pusher = JObject [(''user_id'', JString ''10''),
                        (''user_info'', JObject [(''name'', JString ''Mr. Pusher'')])]"

text \<open>Member data that JSON represents, and member data that it does not.\<close>

definition member_u1 :: jsvalue where
  "member_u1 = JObject [(''user_id'', JString ''u1''),
                        (''user_info'', JObject [(''name'', JString ''A'')])]"

definition member_nan :: jsvalue where
  "member_nan = JObject [(''user_id'', JString ''u1''),
                         (''user_info'', JObject [(''score'', JNaN)])]"


section \<open>Basic facts\<close>

lemma join_empty: "join [] xs = concat xs"
  by (induction "[] :: string" xs rule: join.induct) auto

lemma toString_radix_small: "1 < r \<Longrightarrow> n < r \<Longrightarrow> toString_radix r n = [digit_char n]"
  by (simp add: toString_radix.simps)

lemma toString_radix_step:
  "1 < r \<Longrightarrow> r \<le> n \<Longrightarrow> toString_radix r n = toString_radix r (n div r) @ [digit_char (n mod r)]"
  by (subst toString_radix.simps) simp

lemma digit_char_hex: 
  assumes "d < 16" shows "digit_char d = lower_hex_digit d"
proof -
  have "map digit_char [0..<16] = map lower_hex_digit [0..<16]"
    by code_simp
  then have "map digit_char [0..<16] ! d = map lower_hex_digit [0..<16] ! d"
    by (rule arg_cong)
  with assms show ?thesis
    by (simp only: nth_map length_upt nth_upt minus_nat.diff_0 add_0)
qed

lemma hex_byte: 
  assumes "n < 256"
  shows "padStart 2 (CHR ''0'') (toString_radix 16 n) = [lower_hex_digit (n div 16), lower_hex_digit (n mod 16)]"
proof (cases "n < 16")
  case True
  then show ?thesis
    by (simp add: toString_radix_small padStart_def digit_char_hex lower_hex_digit_def)
next
  case False
  with assms have "n div 16 < 16" by simp
  with False show ?thesis
    by (simp add: toString_radix_step toString_radix_small padStart_def digit_char_hex)
qed

lemma hex_of_bytes_lower_hex: "hex_of_bytes bs = lower_hex bs"
proof -
  have "unat b < 256" for b :: byte
    using unsigned_less [of b] by simp
  then show ?thesis
    by (simp add: hex_of_bytes_def lower_hex_def join_empty hex_byte)
qed

lemma queryParams_spec:
  "createSignature_queryParams this timestamp md5 = spec_queryString (key this) timestamp md5"
  by (simp add: createSignature_queryParams_def spec_queryString_def truthy_string_def
      split: option.split)

lemma computeHMAC_spec: "computeHMAC R this data = HMAC_SHA256_hex R (secret this) data"
  by (simp add: computeHMAC_def HMAC_SHA256_hex_def hex_of_bytes_lower_hex)

section \<open>The request signer\<close>

text \<open>
  Claim C1. For every method, path, timestamp, secret and optional digest,
  \<open>createSignature\<close> signs the text \<open>method\<close>, newline, \<open>path\<close>, newline, query string,
  where the query string is \<open>auth_key\<close>, \<open>auth_timestamp\<close>, \<open>auth_version=1.0\<close> and, only
  for a non-empty digest, \<open>body_md5\<close>, joined by \<open>&\<close> in this order. The result is the
  HMAC-SHA256 of that text under the secret in lowercase hex. Without a digest, and with
  an empty one, no \<open>body_md5\<close> pair is written at all.
\<close>

theorem createSignature_signs_canonical_string:
  "createSignature R this method path timestamp b md5 =
     HMAC_SHA256_hex R (secret this)
       (method @ [CHR 0x0A] @ path @ [CHR 0x0A] @ spec_queryString (key this) timestamp md5)
   \<and> createSignature_queryParams this timestamp None =
       ''auth_key='' @ key this @ ''&auth_timestamp='' @ Number_toString timestamp
       @ ''&auth_version=1.0''
   \<and> createSignature_queryParams this timestamp (Some []) =
       createSignature_queryParams this timestamp None"
  by (simp add: createSignature_def createSignature_stringToSign_def queryParams_spec
      HMAC_SHA256_hex_def hex_of_bytes_lower_hex spec_queryString_def)

lemma upt_numeral_unfold:
  "[i..<numeral n] = (if i < numeral n then i # [Suc i..<numeral n] else [])"
  by (rule upt_rec)

named_theorems run_simps

lemmas [run_simps] = io_bind_def io_return_def io_throw_def io_catch_def io_get_def io_settled_def
  test_runtime_def working_def test_pusher_def ok_response_def test_mac_def test_digest_def
  HMAC_SHA256_hex_def lower_hex_def lower_hex_digit_def spec_queryString_def
  TextEncoder_encode_def encode_char_def Number_toString_def toString_radix.simps digit_char_def
  upt_numeral_unfold

text \<open>The signer run on a write call with a digest: the value returned and the calls made.\<close>

theorem createSignature_signs_canonical_string_witness:
  "createSignature (test_runtime working) test_pusher ''POST'' ''/apps/4711/events'' 1700000000
      None (Some ''abc'') []
   = (Inr ''f4081c3044586c8094a8bcd0e4f80c2034485c708498acc0d4e8fc1024384c60'',
      [ImportKey ''raw'' (TextEncoder_encode ''7ad3773142a6692b25b8'') (''HMAC'', ''SHA-256'')
         False [''sign''],
       Sign ''HMAC'' (TextEncoder_encode ''7ad3773142a6692b25b8'')
         (TextEncoder_encode (''POST'' @ [CHR 0x0A] @ ''/apps/4711/events'' @ [CHR 0x0A] @ 
         ''auth_key=278d425bdf160c739803&auth_timestamp=1700000000&auth_version=1.0&body_md5=abc''))])"
  using createSignature_signs_canonical_string
    [of "test_runtime working" test_pusher "''POST''" "''/apps/4711/events''" 1700000000 None
      "Some ''abc''"]
  by (simp add: run_simps)


lemmas [run_simps] = authorizeChannel_def authenticatePresenceChannel_def computeHMAC_def
  hex_of_bytes_lower_hex truthy_string_def JSON_stringify_def template_opt_def
  QuoteJSONString_def quote_char_def PusherAuth_new_def

section \<open>Channel authorization\<close>

text \<open>
  Claim C5. For a non-empty socket id and channel, \<open>authorizeChannel\<close> signs exactly
  \<open>socketId:channel\<close> with HMAC-SHA256 under the secret and returns \<open>auth = key:signature\<close>
  with no \<open>channel_data\<close>.
\<close>

theorem authorizeChannel_signs_socket_and_channel:
  assumes "socketId \<noteq> []" and "channel \<noteq> []"
  shows "authorizeChannel R this socketId channel =
           io_bind (HMAC_SHA256_hex R (secret this) (socketId @ '':'' @ channel))
             (\<lambda>signature. io_return \<lparr> auth = key this @ '':'' @ signature,
                                        channel_data = None, shared_secret = None \<rparr>)"
  using assms by (simp add: authorizeChannel_def truthy_string_def computeHMAC_spec)

text \<open>A private channel authorized on the stand-in runtime.\<close>

theorem authorizeChannel_signs_socket_and_channel_witness:
  "authorizeChannel (test_runtime working) test_pusher ''1234.1234'' ''private-foobar'' [] =
     (Inr \<lparr> auth = ''278d425bdf160c739803:a8bcd0e4f80c2034485c708498acc0d4e8fc1024384c6074889cb0c4d8ec0014'',
             channel_data = None, shared_secret = None \<rparr>,
      [ImportKey ''raw'' (TextEncoder_encode ''7ad3773142a6692b25b8'') (''HMAC'', ''SHA-256'')
         False [''sign''],
       Sign ''HMAC'' (TextEncoder_encode ''7ad3773142a6692b25b8'')
         (TextEncoder_encode ''1234.1234:private-foobar'')])"
  using authorizeChannel_signs_socket_and_channel
    [of "''1234.1234''" "''private-foobar''" "test_runtime working" test_pusher]
  by (simp add: run_simps)

text \<open>
  Claim C6. With an empty socket id or channel both authorizations throw their
  validation error; the presence variant also throws it for absent (falsy) member data,
  and throws its second validation error when \<open>user_id\<close> is missing or empty. In every
  one of these cases the state of the world is untouched: no primitive was called and
  no signature computed.
\<close>

theorem authorization_validates_first:
  "((socketId = [] \<or> channel = []) \<longrightarrow>
      authorizeChannel R this socketId channel s =
        (Inl (Error ''Socket ID and channel are required for authorization''), s))
   \<and> ((socketId = [] \<or> channel = [] \<or> \<not> truthy presenceData) \<longrightarrow>
      authenticatePresenceChannel R this socketId channel presenceData s =
        (Inl (Error ''Socket ID, channel, and presence data are required''), s))
   \<and> ((socketId \<noteq> [] \<and> channel \<noteq> [] \<and> truthy presenceData
        \<and> \<not> truthy (get_property presenceData ''user_id'')) \<longrightarrow>
      authenticatePresenceChannel R this socketId channel presenceData s =
        (Inl (Error ''user_id is required in presence data''), s))"
  by (auto simp add: authorizeChannel_def authenticatePresenceChannel_def truthy_string_def
      io_throw_def)

text \<open>The three rejections on the stand-in runtime: the list of primitive calls stays empty.\<close>

theorem authorization_validates_first_witness:
  "authorizeChannel (test_runtime working) test_pusher [] ''private-x'' [] =
     (Inl (Error ''Socket ID and channel are required for authorization''), [])
   \<and> authenticatePresenceChannel (test_runtime working) test_pusher ''1234.1234'' []
       (JObject [(''user_id'', JString ''u1'')]) [] =
     (Inl (Error ''Socket ID, channel, and presence data are required''), [])
   \<and> authenticatePresenceChannel (test_runtime working) test_pusher ''1234.1234''
       ''presence-x'' (JObject []) [] =
     (Inl (Error ''user_id is required in presence data''), [])"
  using authorization_validates_first
    [where socketId = "[]" and channel = "''private-x''" and R = "test_runtime working"
       and this = test_pusher and s = "[]" and presenceData = JUndefined]
    authorization_validates_first
    [where socketId = "''1234.1234''" and channel = "[]" and R = "test_runtime working"
       and this = test_pusher and s = "[]"
       and presenceData = "JObject [(''user_id'', JString ''u1'')]"]
    authorization_validates_first
    [where socketId = "''1234.1234''" and channel = "''presence-x''"
       and R = "test_runtime working" and this = test_pusher and s = "[]"
       and presenceData = "JObject []"]
  by simp

lemma PusherAuth_computeHMAC_eq:
  "pa_secret that = secret this \<Longrightarrow> PusherAuth_computeHMAC R that d = computeHMAC R this d"
  by (simp add: PusherAuth_computeHMAC_def computeHMAC_def)

text \<open>
  Claim C10. For a \<open>Pusher\<close> built from a configuration, the standalone \<open>PusherAuth\<close>
  built from the same key and secret computes the same two authorizations: same value,
  same exception, same effect on the world.
\<close>

theorem PusherAuth_agrees_with_Pusher:
  assumes "Pusher_new config = Inr this"
  shows "PusherAuth_authorizeChannel R (PusherAuth_new (cfg_key config) (cfg_secret config))
           socketId channel
         = authorizeChannel R this socketId channel
       \<and> PusherAuth_authenticatePresenceChannel R
           (PusherAuth_new (cfg_key config) (cfg_secret config)) socketId channel presenceData
         = authenticatePresenceChannel R this socketId channel presenceData"
proof -
  from assms have k: "key this = cfg_key config" and s: "secret this = cfg_secret config"
    by (auto simp add: Pusher_new_def Let_def split: if_splits)
  have h: "PusherAuth_computeHMAC R (PusherAuth_new (cfg_key config) (cfg_secret config)) d
           = computeHMAC R this d" for d
    by (rule PusherAuth_computeHMAC_eq) (simp add: PusherAuth_new_def s)
  have pk: "pa_key (PusherAuth_new (cfg_key config) (cfg_secret config)) = key this"
    by (simp add: PusherAuth_new_def k)
  show ?thesis
    by (simp add: PusherAuth_authorizeChannel_def authorizeChannel_def
        PusherAuth_authenticatePresenceChannel_def authenticatePresenceChannel_def h pk)
qed

text \<open>Both classes on one accepted and one rejected input.\<close>

theorem PusherAuth_agrees_with_Pusher_witness:
  "Pusher_new test_config = Inr test_pusher
   \<and> PusherAuth_authorizeChannel (test_runtime working)
        (PusherAuth_new ''278d425bdf160c739803'' ''7ad3773142a6692b25b8'')
        ''1234.1234'' ''private-foobar'' []
      = authorizeChannel (test_runtime working) test_pusher ''1234.1234'' ''private-foobar'' []
   \<and> PusherAuth_authenticatePresenceChannel (test_runtime working)
        (PusherAuth_new ''278d425bdf160c739803'' ''7ad3773142a6692b25b8'')
        ''1234.1234'' ''presence-foobar'' (JObject []) []
      = (Inl (Error ''user_id is required in presence data''), [])"
proof -
  have c: "Pusher_new test_config = Inr test_pusher"
    by (simp add: Pusher_new_def test_config_def test_pusher_def truthy_string_def
        opt_or_else_def)
  from PusherAuth_agrees_with_Pusher [OF c, of "test_runtime working"]
  show ?thesis
    using c by (simp add: test_config_def authenticatePresenceChannel_def truthy_string_def
        io_throw_def)
qed


lemma truthy_stringify: "truthy v \<Longrightarrow> \<exists>t. JSON_stringify v = Some t"
  by (cases v) (simp_all add: JSON_stringify_def)

lemma stringify_mr_pusher:
  \<open>JSON_stringify mr_pusher = Some ''{"user_id":"10","user_info":{"name":"Mr. Pusher"}}''\<close>
  by (simp add: mr_pusher_def JSON_stringify_def QuoteJSONString_def quote_char_def)

lemma truthy_mr_pusher: "truthy mr_pusher \<and> truthy (get_property mr_pusher ''user_id'')"
  by (simp add: mr_pusher_def truthy_string_def)

lemma presence_signature:
  assumes "socketId \<noteq> []" and "channel \<noteq> []" and "truthy presenceData"
    and "truthy (get_property presenceData ''user_id'')"
    and "JSON_stringify presenceData = Some channelData"
  shows "authenticatePresenceChannel R this socketId channel presenceData =
           io_bind (HMAC_SHA256_hex R (secret this)
                      (socketId @ '':'' @ channel @ '':'' @ channelData))
             (\<lambda>signature. io_return \<lparr> auth = key this @ '':'' @ signature,
                                        channel_data = Some channelData,
                                        shared_secret = None \<rparr>)"
  using assms
  by (simp add: authenticatePresenceChannel_def truthy_string_def computeHMAC_spec
      template_opt_def)

text \<open>
  Claim C4. For a non-empty socket id and channel and member data with a truthy
  \<open>user_id\<close>, \<open>authenticatePresenceChannel\<close> returns \<open>auth = key:signature\<close> where the
  signature is the lowercase-hex HMAC-SHA256, under the secret, of
  \<open>socketId:channel:channelData\<close> and \<open>channelData\<close> is the JSON text of the member data.
  In particular, for the published example (key \<open>278d425bdf160c739803\<close>, secret
  \<open>7ad3773142a6692b25b8\<close>, socket \<open>1234.1234\<close>, channel \<open>presence-foobar\<close>) the signed text
  is \<open>1234.1234:presence-foobar:\<close> followed by the channel data, whatever HMAC-SHA256
  implementation the runtime supplies.
\<close>

theorem authenticatePresenceChannel_signs_channel_data:
  \<open>(socketId \<noteq> [] \<and> channel \<noteq> [] \<and> truthy presenceData
      \<and> truthy (get_property presenceData ''user_id'') \<longrightarrow>
    (\<exists>channelData.
        JSON_stringify presenceData = Some channelData
      \<and> authenticatePresenceChannel R this socketId channel presenceData =
          io_bind (HMAC_SHA256_hex R (secret this)
                     (socketId @ '':'' @ channel @ '':'' @ channelData))
            (\<lambda>signature. io_return \<lparr> auth = key this @ '':'' @ signature,
                                       channel_data = Some channelData,
                                       shared_secret = None \<rparr>)))
   \<and> (key this = ''278d425bdf160c739803'' \<and> secret this = ''7ad3773142a6692b25b8'' \<longrightarrow>
      authenticatePresenceChannel R this ''1234.1234'' ''presence-foobar'' mr_pusher =
        io_bind (HMAC_SHA256_hex R ''7ad3773142a6692b25b8''
                   (''1234.1234:presence-foobar:''
                    @ ''{"user_id":"10","user_info":{"name":"Mr. Pusher"}}''))
          (\<lambda>signature. io_return
             \<lparr> auth = ''278d425bdf160c739803:'' @ signature,
               channel_data = Some ''{"user_id":"10","user_info":{"name":"Mr. Pusher"}}'',
               shared_secret = None \<rparr>))\<close>
proof (intro conjI impI)
  assume a: "socketId \<noteq> [] \<and> channel \<noteq> [] \<and> truthy presenceData
      \<and> truthy (get_property presenceData ''user_id'')"
  then obtain t where t: "JSON_stringify presenceData = Some t"
    using truthy_stringify by blast
  from a have "authenticatePresenceChannel R this socketId channel presenceData =
          io_bind (HMAC_SHA256_hex R (secret this) (socketId @ '':'' @ channel @ '':'' @ t))
            (\<lambda>signature. io_return \<lparr> auth = key this @ '':'' @ signature,
                                       channel_data = Some t, shared_secret = None \<rparr>)"
    by (intro presence_signature t) simp_all
  with t show "\<exists>channelData.
        JSON_stringify presenceData = Some channelData
      \<and> authenticatePresenceChannel R this socketId channel presenceData =
          io_bind (HMAC_SHA256_hex R (secret this)
                     (socketId @ '':'' @ channel @ '':'' @ channelData))
            (\<lambda>signature. io_return \<lparr> auth = key this @ '':'' @ signature,
                                       channel_data = Some channelData,
                                       shared_secret = None \<rparr>)"
    by blast
next
  assume k: "key this = ''278d425bdf160c739803'' \<and> secret this = ''7ad3773142a6692b25b8''"
  have \<open>authenticatePresenceChannel R this ''1234.1234'' ''presence-foobar'' mr_pusher =
          io_bind (HMAC_SHA256_hex R (secret this)
                     (''1234.1234'' @ '':'' @ ''presence-foobar'' @ '':''
                      @ ''{"user_id":"10","user_info":{"name":"Mr. Pusher"}}''))
            (\<lambda>signature. io_return
               \<lparr> auth = key this @ '':'' @ signature,
                 channel_data = Some ''{"user_id":"10","user_info":{"name":"Mr. Pusher"}}'',
                 shared_secret = None \<rparr>)\<close>
    by (intro presence_signature stringify_mr_pusher) (simp_all add: truthy_mr_pusher)
  with k show \<open>authenticatePresenceChannel R this ''1234.1234'' ''presence-foobar'' mr_pusher =
        io_bind (HMAC_SHA256_hex R ''7ad3773142a6692b25b8''
                   (''1234.1234:presence-foobar:''
                    @ ''{"user_id":"10","user_info":{"name":"Mr. Pusher"}}''))
          (\<lambda>signature. io_return
             \<lparr> auth = ''278d425bdf160c739803:'' @ signature,
               channel_data = Some ''{"user_id":"10","user_info":{"name":"Mr. Pusher"}}'',
               shared_secret = None \<rparr>)\<close>
    by simp
qed

text \<open>The published example on the stand-in runtime.\<close>

theorem authenticatePresenceChannel_signs_channel_data_witness:
  \<open>authenticatePresenceChannel (test_runtime working) test_pusher ''1234.1234''
      ''presence-foobar'' mr_pusher [] =
     (Inr \<lparr> auth = ''278d425bdf160c739803:14283c5064788ca0b4c8dcf004182c4054687c90a4b8cce0f4081c3044586c80'',
             channel_data = Some ''{"user_id":"10","user_info":{"name":"Mr. Pusher"}}'',
             shared_secret = None \<rparr>,
      [ImportKey ''raw'' (TextEncoder_encode ''7ad3773142a6692b25b8'') (''HMAC'', ''SHA-256'')
         False [''sign''],
       Sign ''HMAC'' (TextEncoder_encode ''7ad3773142a6692b25b8'')
         (TextEncoder_encode
            ''1234.1234:presence-foobar:{"user_id":"10","user_info":{"name":"Mr. Pusher"}}'')])\<close>
  using authenticatePresenceChannel_signs_channel_data
    [where R = "test_runtime working" and this = test_pusher]
  by (simp add: run_simps)


section \<open>Running the model\<close>

lemma createSignature_HMAC:
  "createSignature R this method path timestamp b md5 =
     HMAC_SHA256_hex R (secret this) (createSignature_stringToSign this method path timestamp md5)"
  by (simp add: createSignature_def HMAC_SHA256_hex_def hex_of_bytes_lower_hex)

lemma test_HMAC:
  "HMAC_SHA256_hex (test_runtime T) sec msg s =
     (if importKey_fails T
      then (Inl (Error ''DataError''),
            s @ [ImportKey ''raw'' (TextEncoder_encode sec) (''HMAC'', ''SHA-256'') False [''sign'']])
      else if sign_fails T
      then (Inl (Error ''OperationError''),
            s @ [ImportKey ''raw'' (TextEncoder_encode sec) (''HMAC'', ''SHA-256'') False [''sign''],
                 Sign ''HMAC'' (TextEncoder_encode sec) (TextEncoder_encode msg)])
      else (Inr (lower_hex (test_mac (TextEncoder_encode sec) (TextEncoder_encode msg))),
            s @ [ImportKey ''raw'' (TextEncoder_encode sec) (''HMAC'', ''SHA-256'') False [''sign''],
                 Sign ''HMAC'' (TextEncoder_encode sec) (TextEncoder_encode msg)]))"
  by (simp add: HMAC_SHA256_hex_def test_runtime_def io_bind_def io_return_def)

lemma test_computeMD5:
  "computeMD5 (test_runtime T) this str s =
     (if digest_fails T
      then (Inr [], s @ [Digest ''MD5'' (TextEncoder_encode str),
                         Warn ''MD5 not available, using empty hash''])
      else (Inr (lower_hex (test_digest (TextEncoder_encode str))),
            s @ [Digest ''MD5'' (TextEncoder_encode str)]))"
  by (simp add: computeMD5_def test_runtime_def io_bind_def io_return_def io_catch_def Let_def
      hex_of_bytes_lower_hex)

lemma test_fetch: "fetch (test_runtime T) r s = (reply T, s @ [Fetch r])"
  by (simp add: test_runtime_def)

lemma test_timestamp_now:
  "timestamp_now (test_runtime T) s = (Inr (clock T div 1000), s @ [Now])"
  by (simp add: timestamp_now_def test_runtime_def io_bind_def io_return_def io_get_def)

named_theorems sim and ev

lemmas [sim] = io_bind_def io_return_def io_throw_def io_catch_def io_settled_def
  createSignature_HMAC computeHMAC_spec test_HMAC test_computeMD5 test_fetch test_timestamp_now
  trigger_def triggerBatch_def getChannel_def getChannels_def
  read_response_def caught_def fetch_json_def working_def ok_response_def
  authorizeChannel_def authenticatePresenceChannel_def truthy_string_def

lemmas [ev] = TextEncoder_encode_def encode_char_def Number_toString_def toString_radix.simps
  digit_char_def lower_hex_def lower_hex_digit_def test_mac_def test_digest_def
  upt_numeral_unfold QuoteJSONString_def quote_char_def URLSearchParams_toString_def
  URLSearchParams_set_def urlencode_def urlencode_char_def percent_byte_def
  JSON_stringify_object_def JSON_stringify_def data_field_def batch_entry_def
  trigger_body_def triggerBatch_body_def
  createSignature_stringToSign_def createSignature_queryParams_def trigger_query_def
  getChannel_query_def getChannels_query_def info_param_def prefix_param_def or_else_def
  test_pusher_def template_opt_def truthy_string_def


section \<open>The degraded mode without MD5\<close>

text \<open>
  Claim C2, at a failing input. The digest primitive rejects MD5; \<open>trigger\<close> warns and
  signs the canonical text without \<open>body_md5\<close>, but the query of the request it sends
  still carries the key \<open>body_md5\<close>, with an empty value, between \<open>auth_version\<close> and
  \<open>auth_signature\<close>.
\<close>

theorem trigger_without_md5_sends_empty_body_md5:
  \<open>trigger (test_runtime (working\<lparr>digest_fails := True\<rparr>)) test_pusher
      (Positional (Channel ''my-channel'') ''my-event'' (JString ''hello'') None) [] =
   (Inr \<lparr> success = True, error = None, status = None \<rparr>,
    [Now,
     Digest ''MD5''
       (TextEncoder_encode ''{"name":"my-event","data":"hello","channels":["my-channel"]}''),
     Warn ''MD5 not available, using empty hash'',
     ImportKey ''raw'' (TextEncoder_encode ''7ad3773142a6692b25b8'') (''HMAC'', ''SHA-256'')
       False [''sign''],
     Sign ''HMAC'' (TextEncoder_encode ''7ad3773142a6692b25b8'')
       (TextEncoder_encode (''POST'' @ [CHR 0x0A] @ ''/apps/4711/events'' @ [CHR 0x0A]
          @ ''auth_key=278d425bdf160c739803&auth_timestamp=1700000000&auth_version=1.0'')),
     Fetch \<lparr> url = ''https://api-mt1.pusher.com/apps/4711/events?auth_key=278d425bdf160c739803&auth_timestamp=1700000000&auth_version=1.0&body_md5=&auth_signature=99adc1d5e9fd1125394d6175899db1c5d9ed0115293d5165798da1b5c9ddf105'',
             http_method = ''POST'',
             headers = [(''Content-Type'', ''application/json'')],
             body = Some ''{"name":"my-event","data":"hello","channels":["my-channel"]}'' \<rparr>])\<close>
  apply (simp add: sim Let_def)
  apply (simp add: ev)
  done


section \<open>What the REST calls sign\<close>









section \<open>Failure of the signing primitive\<close>

lemma timestamp_now_run:
  "Date_now R s0 = (now, s) \<Longrightarrow> timestamp_now R s0 = (Inr (now div 1000), s)"
  by (simp add: timestamp_now_def io_bind_def io_get_def io_return_def)

lemma hmac_throws_HMAC:
  "hmac_throws R sec msg s e s' \<Longrightarrow> HMAC_SHA256_hex R sec msg s = (Inl e, s')"
  by (auto simp add: hmac_throws_def HMAC_SHA256_hex_def io_bind_def
      split: prod.splits sum.splits)

lemma createSignature_throws:
  "hmac_throws R (secret this) (createSignature_stringToSign this method path t hash) s e s'
   \<Longrightarrow> createSignature R this method path t b hash s = (Inl e, s')"
  by (simp add: createSignature_HMAC hmac_throws_HMAC)

lemma computeHMAC_throws:
  "hmac_throws R (secret this) d s e s' \<Longrightarrow> computeHMAC R this d s = (Inl e, s')"
  by (simp add: computeHMAC_spec hmac_throws_HMAC)

lemma authorizeChannel_throws:
  "socketId \<noteq> [] \<Longrightarrow> channel \<noteq> [] \<Longrightarrow>
   hmac_throws R (secret this) (socketId @ '':'' @ channel) s e s' \<Longrightarrow>
   authorizeChannel R this socketId channel s = (Inl e, s')"
  by (simp add: authorizeChannel_def truthy_string_def io_bind_def computeHMAC_throws)

lemma authenticatePresenceChannel_throws:
  "socketId \<noteq> [] \<Longrightarrow> channel \<noteq> [] \<Longrightarrow> truthy presenceData \<Longrightarrow>
   truthy (get_property presenceData ''user_id'') \<Longrightarrow>
   JSON_stringify presenceData = Some channelData \<Longrightarrow>
   hmac_throws R (secret this) (socketId @ '':'' @ channel @ '':'' @ channelData) s e s' \<Longrightarrow>
   authenticatePresenceChannel R this socketId channel presenceData s = (Inl e, s')"
  by (simp add: authenticatePresenceChannel_def truthy_string_def io_bind_def
      computeHMAC_throws template_opt_def)

lemma getChannel_throws:
  "Date_now R s0 = (now, s) \<Longrightarrow>
   hmac_throws R (secret this)
     (createSignature_stringToSign this ''GET''
        (''/apps/'' @ appId this @ ''/channels/'' @ channel) (now div 1000) None) s e s' \<Longrightarrow>
   getChannel R this channel options s0 = (Inl e, s')"
  by (simp add: getChannel_def io_bind_def timestamp_now_run createSignature_throws Let_def)

lemma getChannels_throws:
  "Date_now R s0 = (now, s) \<Longrightarrow>
   hmac_throws R (secret this)
     (createSignature_stringToSign this ''GET''
        (''/apps/'' @ appId this @ ''/channels'') (now div 1000) None) s e s' \<Longrightarrow>
   getChannels R this prefix options s0 = (Inl e, s')"
  by (simp add: getChannels_def io_bind_def timestamp_now_run createSignature_throws Let_def)

lemma trigger_catches:
  "Date_now R s0 = (now, s1) \<Longrightarrow>
   computeMD5 R this (trigger_body args) s1 = (Inr digest, s) \<Longrightarrow>
   hmac_throws R (secret this)
     (createSignature_stringToSign this ''POST''
        (''/apps/'' @ appId this @ ''/events'') (now div 1000) (Some digest)) s e s' \<Longrightarrow>
   trigger R this args s0 =
     (Inr \<lparr> success = False,
             error = Some (case e of Error m \<Rightarrow> m | Thrown v \<Rightarrow> ''Unknown error''),
             status = None \<rparr>, s')"
  by (simp add: trigger_def io_bind_def io_catch_def timestamp_now_run createSignature_throws
      Let_def caught_def io_return_def)

lemma triggerBatch_catches:
  "Date_now R s0 = (now, s1) \<Longrightarrow>
   computeMD5 R this (triggerBatch_body events) s1 = (Inr digest, s) \<Longrightarrow>
   hmac_throws R (secret this)
     (createSignature_stringToSign this ''POST''
        (''/apps/'' @ appId this @ ''/batch_events'') (now div 1000) (Some digest)) s e s' \<Longrightarrow>
   triggerBatch R this events s0 =
     (Inr \<lparr> success = False,
             error = Some (case e of Error m \<Rightarrow> m | Thrown v \<Rightarrow> ''Unknown error''),
             status = None \<rparr>, s')"
  by (simp add: triggerBatch_def io_bind_def io_catch_def timestamp_now_run
      createSignature_throws Let_def caught_def io_return_def)


lemma test_hmac_throws:
  "hmac_throws (test_runtime T) sec msg s e s' =
     (if importKey_fails T
      then e = Error ''DataError''
           \<and> s' = s @ [ImportKey ''raw'' (TextEncoder_encode sec) (''HMAC'', ''SHA-256'')
                          False [''sign'']]
      else sign_fails T \<and> e = Error ''OperationError''
           \<and> s' = s @ [ImportKey ''raw'' (TextEncoder_encode sec) (''HMAC'', ''SHA-256'')
                          False [''sign''],
                        Sign ''HMAC'' (TextEncoder_encode sec) (TextEncoder_encode msg)])"
  by (auto simp add: hmac_throws_def test_runtime_def)

text \<open>
  Claim C7 fails as stated: when \<open>importKey\<close> throws inside \<open>trigger\<close>, the call returns the
  ordinary value \<open>{success: false, error: message}\<close>.
\<close>

theorem trigger_returns_signing_failure_as_value:
  \<open>trigger (test_runtime (working\<lparr>importKey_fails := True\<rparr>)) test_pusher
      (Positional (Channel ''my-channel'') ''my-event'' (JString ''hello'') None) [] =
   (Inr \<lparr> success = False, error = Some ''DataError'', status = None \<rparr>,
    [Now,
     Digest ''MD5''
       (TextEncoder_encode ''{"name":"my-event","data":"hello","channels":["my-channel"]}''),
     ImportKey ''raw'' (TextEncoder_encode ''7ad3773142a6692b25b8'') (''HMAC'', ''SHA-256'')
       False [''sign'']])\<close>
  apply (simp add: sim Let_def)
  apply (simp add: ev)
  done

text \<open>
  Claim C7, amended. When the one \<open>importKey\<close> call or the one \<open>sign\<close> call of the signing
  step throws, nothing is retried: \<open>createSignature\<close> and \<open>computeHMAC\<close>, and with them
  \<open>authorizeChannel\<close>, \<open>authenticatePresenceChannel\<close>, \<open>getChannel\<close> and \<open>getChannels\<close>, throw
  that same exception and leave the world as the failing call left it; \<open>trigger\<close> and
  \<open>triggerBatch\<close> catch it and return \<open>{success: false, error: message}\<close>, again with no
  further call.
\<close>

theorem signing_failure_is_thrown_or_reported:
  "(hmac_throws R (secret this) (createSignature_stringToSign this verb path t hash) s e s'
      \<longrightarrow> createSignature R this verb path t b hash s = (Inl e, s'))
   \<and> (hmac_throws R (secret this) d s e s' \<longrightarrow> computeHMAC R this d s = (Inl e, s'))
   \<and> (socketId \<noteq> [] \<and> channel \<noteq> []
        \<and> hmac_throws R (secret this) (socketId @ '':'' @ channel) s e s'
      \<longrightarrow> authorizeChannel R this socketId channel s = (Inl e, s'))
   \<and> (socketId \<noteq> [] \<and> channel \<noteq> [] \<and> truthy presenceData
        \<and> truthy (get_property presenceData ''user_id'')
        \<and> JSON_stringify presenceData = Some channelData
        \<and> hmac_throws R (secret this) (socketId @ '':'' @ channel @ '':'' @ channelData) s e s'
      \<longrightarrow> authenticatePresenceChannel R this socketId channel presenceData s = (Inl e, s'))
   \<and> (Date_now R s0 = (now, s)
        \<and> hmac_throws R (secret this)
             (createSignature_stringToSign this ''GET''
                (''/apps/'' @ appId this @ ''/channels/'' @ channel) (now div 1000) None) s e s'
      \<longrightarrow> getChannel R this channel options s0 = (Inl e, s'))
   \<and> (Date_now R s0 = (now, s)
        \<and> hmac_throws R (secret this)
             (createSignature_stringToSign this ''GET''
                (''/apps/'' @ appId this @ ''/channels'') (now div 1000) None) s e s'
      \<longrightarrow> getChannels R this prefix options s0 = (Inl e, s'))
   \<and> (Date_now R s0 = (now, s1)
        \<and> computeMD5 R this (trigger_body args) s1 = (Inr digest, s)
        \<and> hmac_throws R (secret this)
             (createSignature_stringToSign this ''POST''
                (''/apps/'' @ appId this @ ''/events'') (now div 1000) (Some digest)) s e s'
      \<longrightarrow> trigger R this args s0 =
            (Inr \<lparr> success = False,
                    error = Some (case e of Error m \<Rightarrow> m | Thrown v \<Rightarrow> ''Unknown error''),
                    status = None \<rparr>, s'))
   \<and> (Date_now R s0 = (now, s1)
        \<and> computeMD5 R this (triggerBatch_body events) s1 = (Inr digest, s)
        \<and> hmac_throws R (secret this)
             (createSignature_stringToSign this ''POST''
                (''/apps/'' @ appId this @ ''/batch_events'') (now div 1000) (Some digest)) s e s'
      \<longrightarrow> triggerBatch R this events s0 =
            (Inr \<lparr> success = False,
                    error = Some (case e of Error m \<Rightarrow> m | Thrown v \<Rightarrow> ''Unknown error''),
                    status = None \<rparr>, s'))"
  by (intro conjI impI)
    (simp_all add: createSignature_throws computeHMAC_throws authorizeChannel_throws
      authenticatePresenceChannel_throws getChannel_throws getChannels_throws
      trigger_catches triggerBatch_catches)
text \<open>
  A failing \<open>sign\<close> and a failing \<open>importKey\<close>: each primitive was called once.
\<close>

theorem signing_failure_is_thrown_or_reported_witness:
  "createSignature (test_runtime (working\<lparr>sign_fails := True\<rparr>)) test_pusher ''GET''
      ''/apps/4711/channels'' 1700000000 None None [] =
     (Inl (Error ''OperationError''),
      [ImportKey ''raw'' (TextEncoder_encode ''7ad3773142a6692b25b8'') (''HMAC'', ''SHA-256'')
         False [''sign''],
       Sign ''HMAC'' (TextEncoder_encode ''7ad3773142a6692b25b8'')
         (TextEncoder_encode (''GET'' @ [CHR 0x0A] @ ''/apps/4711/channels'' @ [CHR 0x0A]
            @ ''auth_key=278d425bdf160c739803&auth_timestamp=1700000000&auth_version=1.0''))])
   \<and> authorizeChannel (test_runtime (working\<lparr>importKey_fails := True\<rparr>)) test_pusher
        ''1234.1234'' ''private-foobar'' [] =
     (Inl (Error ''DataError''),
      [ImportKey ''raw'' (TextEncoder_encode ''7ad3773142a6692b25b8'') (''HMAC'', ''SHA-256'')
         False [''sign'']])"
  using signing_failure_is_thrown_or_reported
    [where R = "test_runtime (working\<lparr>sign_fails := True\<rparr>)" and this = test_pusher
       and verb = "''GET''" and path = "''/apps/4711/channels''" and t = 1700000000
       and hash = None and b = None and s = "[]" and e = "Error ''OperationError''"
       and s' = "[ImportKey ''raw'' (TextEncoder_encode ''7ad3773142a6692b25b8'')
                    (''HMAC'', ''SHA-256'') False [''sign''],
                  Sign ''HMAC'' (TextEncoder_encode ''7ad3773142a6692b25b8'')
                    (TextEncoder_encode (''GET'' @ [CHR 0x0A] @ ''/apps/4711/channels''
                       @ [CHR 0x0A]
                       @ ''auth_key=278d425bdf160c739803&auth_timestamp=1700000000&auth_version=1.0''))]",
     THEN conjunct1]
    signing_failure_is_thrown_or_reported
    [where R = "test_runtime (working\<lparr>importKey_fails := True\<rparr>)" and this = test_pusher
       and socketId = "''1234.1234''" and channel = "''private-foobar''" and s = "[]"
       and e = "Error ''DataError''"
       and s' = "[ImportKey ''raw'' (TextEncoder_encode ''7ad3773142a6692b25b8'')
                    (''HMAC'', ''SHA-256'') False [''sign'']]",
     THEN conjunct2, THEN conjunct2, THEN conjunct1]
  by (simp add: test_hmac_throws working_def test_pusher_def createSignature_stringToSign_def
      createSignature_queryParams_def Number_toString_def toString_radix.simps digit_char_def)


section \<open>Determinism of the request signer\<close>

lemma lower_hex_digit_mem: "d < 16 \<Longrightarrow> lower_hex_digit d \<in> set ''0123456789abcdef''"
  unfolding lower_hex_digit_def by (rule nth_mem) simp

lemma length_lower_hex: "length (lower_hex bs) = 2 * length bs"
  by (induction bs) (simp_all add: lower_hex_def)

lemma set_lower_hex: "set (lower_hex bs) \<subseteq> set ''0123456789abcdef''"
proof -
  define S where "S = set ''0123456789abcdef''"
  have mem: "lower_hex_digit d \<in> S" if "d < 16" for d
    unfolding S_def using that by (rule lower_hex_digit_mem)
  have "unat b < 256" for b :: byte
    using unsigned_less [of b] by simp
  then have hi: "unat b div 16 < 16" for b :: byte
    using less_mult_imp_div_less [of "unat b" 16 16] by simp
  have "set (lower_hex bs) \<subseteq> S"
    unfolding lower_hex_def by (induction bs) (simp_all add: mem hi)
  then show ?thesis
    unfolding S_def .
qed

lemma stringToSign_cong:
  "key that = key this \<Longrightarrow>
   createSignature_stringToSign that method path t hash =
   createSignature_stringToSign this method path t hash"
  by (simp add: createSignature_stringToSign_def createSignature_queryParams_def)

lemma HMAC_stateless:
  assumes imp: "\<And>kd s s'. fst (subtle_importKey R ''raw'' kd (''HMAC'', ''SHA-256'') False [''sign''] s)
                  = fst (subtle_importKey R ''raw'' kd (''HMAC'', ''SHA-256'') False [''sign''] s')"
    and sgn: "\<And>k d s s'. fst (subtle_sign R ''HMAC'' k d s) = fst (subtle_sign R ''HMAC'' k d s')"
  shows "fst (HMAC_SHA256_hex R sec msg s') = fst (HMAC_SHA256_hex R sec msg s)"
proof -
  let ?imp = "subtle_importKey R ''raw'' (TextEncoder_encode sec) (''HMAC'', ''SHA-256'') False
                [''sign'']"
  obtain r1 s1 where 1: "?imp s = (r1, s1)" by (cases "?imp s")
  obtain r2 s2 where 2: "?imp s' = (r2, s2)" by (cases "?imp s'")
  from imp [of "TextEncoder_encode sec" s s'] 1 2 have r: "r2 = r1" by simp
  show ?thesis
  proof (cases r1)
    case (Inl e)
    with 1 2 r show ?thesis by (simp add: HMAC_SHA256_hex_def io_bind_def)
  next
    case (Inr k)
    let ?sg = "subtle_sign R ''HMAC'' k (TextEncoder_encode msg)"
    obtain q1 t1 where 3: "?sg s1 = (q1, t1)" by (cases "?sg s1")
    obtain q2 t2 where 4: "?sg s2 = (q2, t2)" by (cases "?sg s2")
    from sgn [of k "TextEncoder_encode msg" s1 s2] 3 4 have "q2 = q1" by simp
    with 1 2 3 4 r Inr show ?thesis
      by (cases q1) (simp_all add: HMAC_SHA256_hex_def io_bind_def io_return_def)
  qed
qed

lemma HMAC_result_hex:
  assumes len: "\<And>k d s mac s'. subtle_sign R ''HMAC'' k d s = (Inr mac, s') \<Longrightarrow> length mac = 32"
    and res: "fst (HMAC_SHA256_hex R sec msg s) = Inr sig"
  shows "length sig = 64 \<and> set sig \<subseteq> set ''0123456789abcdef''"
proof -
  from res obtain mac where "sig = lower_hex mac" and "length mac = 32"
    by (auto simp add: HMAC_SHA256_hex_def io_bind_def io_return_def
        split: prod.splits sum.splits dest: len)
  then show ?thesis
    using set_lower_hex [of mac] by (simp add: length_lower_hex del: set_simps)
qed

text \<open>
  Claim C9. When the runtime's \<open>importKey\<close> and \<open>sign\<close> are functions of their arguments
  (as HMAC is) and \<open>sign\<close> returns the 32 bytes of SHA-256, the output of
  \<open>createSignature\<close> depends on nothing but the key, the secret, the method, the path, the
  timestamp and the digest: not on the state of the world, not on the other fields of the
  client, not on the body. Whenever it returns, the output is 64 lowercase hex characters.
\<close>

theorem createSignature_deterministic:
  assumes "\<And>kd s s'. fst (subtle_importKey R ''raw'' kd (''HMAC'', ''SHA-256'') False [''sign''] s)
                  = fst (subtle_importKey R ''raw'' kd (''HMAC'', ''SHA-256'') False [''sign''] s')"
    and "\<And>k d s s'. fst (subtle_sign R ''HMAC'' k d s) = fst (subtle_sign R ''HMAC'' k d s')"
    and "\<And>k d s mac s'. subtle_sign R ''HMAC'' k d s = (Inr mac, s') \<Longrightarrow> length mac = 32"
    and "key that = key this" and "secret that = secret this"
  shows "fst (createSignature R that method path t b' hash s')
           = fst (createSignature R this method path t b hash s)
         \<and> (\<forall>sig. fst (createSignature R this method path t b hash s) = Inr sig
               \<longrightarrow> length sig = 64 \<and> set sig \<subseteq> set ''0123456789abcdef'')"
proof
  have "createSignature R that method path t b' hash =
          HMAC_SHA256_hex R (secret this) (createSignature_stringToSign this method path t hash)"
    using stringToSign_cong [OF assms(4)] assms(5) by (simp add: createSignature_HMAC)
  then show "fst (createSignature R that method path t b' hash s')
           = fst (createSignature R this method path t b hash s)"
    by (simp only: createSignature_HMAC) (rule HMAC_stateless [OF assms(1,2)])
  show "\<forall>sig. fst (createSignature R this method path t b hash s) = Inr sig
               \<longrightarrow> length sig = 64 \<and> set sig \<subseteq> set ''0123456789abcdef''"
  proof (intro allI impI)
    fix sig
    assume "fst (createSignature R this method path t b hash s) = Inr sig"
    then have r: "fst (HMAC_SHA256_hex R (secret this)
                    (createSignature_stringToSign this method path t hash) s) = Inr sig"
      by (simp only: createSignature_HMAC)
    show "length sig = 64 \<and> set sig \<subseteq> set ''0123456789abcdef''"
    proof (rule HMAC_result_hex [where R = R])
      show "\<And>k d s mac s'. subtle_sign R ''HMAC'' k d s = (Inr mac, s') \<Longrightarrow> length mac = 32"
        by (rule assms(3))
      show "fst (HMAC_SHA256_hex R (secret this)
              (createSignature_stringToSign this method path t hash) s) = Inr sig"
        by (rule r)
    qed
  qed
qed

text \<open>
  Two clients with the same key and secret, in different states of the world.
\<close>

theorem createSignature_deterministic_witness:
  "fst (createSignature (test_runtime working) (test_pusher\<lparr>appId := ''1'', cluster := ''eu''\<rparr>)
          ''POST'' ''/apps/4711/events'' 1700000000 (Some ''{}'') (Some ''abc'') [Now])
     = Inr ''f4081c3044586c8094a8bcd0e4f80c2034485c708498acc0d4e8fc1024384c60''
   \<and> length ''f4081c3044586c8094a8bcd0e4f80c2034485c708498acc0d4e8fc1024384c60'' = 64
   \<and> set ''f4081c3044586c8094a8bcd0e4f80c2034485c708498acc0d4e8fc1024384c60''
       \<subseteq> set ''0123456789abcdef''"
proof -
  let ?that = "test_pusher\<lparr>appId := ''1'', cluster := ''eu''\<rparr>"
  let ?sig = "''f4081c3044586c8094a8bcd0e4f80c2034485c708498acc0d4e8fc1024384c60''"
  have t: "fst (createSignature (test_runtime working) ?that ''POST'' ''/apps/4711/events''
                  1700000000 (Some ''{}'') (Some ''abc'') [Now])
           = fst (createSignature (test_runtime working) test_pusher ''POST''
                  ''/apps/4711/events'' 1700000000 None (Some ''abc'') [])
         \<and> (\<forall>sig. fst (createSignature (test_runtime working) test_pusher ''POST''
                  ''/apps/4711/events'' 1700000000 None (Some ''abc'') []) = Inr sig
               \<longrightarrow> length sig = 64 \<and> set sig \<subseteq> set ''0123456789abcdef'')"
  proof (rule createSignature_deterministic)
    show "key ?that = key test_pusher" and "secret ?that = secret test_pusher"
      by simp_all
    show "\<And>k d s mac s'. subtle_sign (test_runtime working) ''HMAC'' k d s = (Inr mac, s')
            \<Longrightarrow> length mac = 32"
      by (auto simp add: test_runtime_def test_mac_def split: if_splits)
  qed (simp_all add: test_runtime_def)
  have v: "fst (createSignature (test_runtime working) test_pusher
          ''POST'' ''/apps/4711/events'' 1700000000 None (Some ''abc'') []) = Inr ?sig"
    apply (simp add: sim)
    apply (simp add: ev)
    done
  from t have "fst (createSignature (test_runtime working) ?that ''POST'' ''/apps/4711/events''
                  1700000000 (Some ''{}'') (Some ''abc'') [Now])
           = fst (createSignature (test_runtime working) test_pusher ''POST''
                  ''/apps/4711/events'' 1700000000 None (Some ''abc'') [])" ..
  from this v have a: "fst (createSignature (test_runtime working) ?that ''POST''
                  ''/apps/4711/events'' 1700000000 (Some ''{}'') (Some ''abc'') [Now]) = Inr ?sig"
    by (rule trans)
  from t have "\<forall>sig. fst (createSignature (test_runtime working) test_pusher ''POST''
                  ''/apps/4711/events'' 1700000000 None (Some ''abc'') []) = Inr sig
               \<longrightarrow> length sig = 64 \<and> set sig \<subseteq> set ''0123456789abcdef''" ..
  then have "fst (createSignature (test_runtime working) test_pusher ''POST''
                  ''/apps/4711/events'' 1700000000 None (Some ''abc'') []) = Inr ?sig
               \<longrightarrow> length ?sig = 64 \<and> set ?sig \<subseteq> set ''0123456789abcdef''"
    by (rule spec)
  from this v have "length ?sig = 64 \<and> set ?sig \<subseteq> set ''0123456789abcdef''"
    by (rule mp)
  with a show ?thesis ..
qed

end
